theory Spec2Isabelle
  imports Main
begin

section \<open>The cosimulation test runner (esi-cosim-runner.py)\<close>

text \<open>
  A shallow embedding of the class \<open>CosimTestRunner\<close>, of \<open>isPortOpen\<close> and of
  \<open>__main__\<close>. Everything outside the script (the file system, the simulation
  process, the test process, the environment, sockets, the interpreter's settings) is a
  field of a record \<open>world\<close>; what the script does to it is logged as a list of events
  in the state. Exceptions are values of the type \<open>exn\<close>; a function that may raise
  returns \<open>exn + 'a\<close>, \<open>Inl\<close> being the exception.
\<close>

subsection \<open>Strings\<close>

text \<open>
  A Python \<open>str\<close> is a sequence of Unicode code points, so a string is a list of
  natural numbers. \<open>lit\<close> gives the string of an ASCII literal of the source. Files
  hold text: the decoding of their bytes is not part of the model.
\<close>

type_synonym ustring = "nat list"

definition lit :: "string \<Rightarrow> ustring" where
  "lit s = map of_char s"

definition NL :: nat where
  "NL = 10"

definition CR :: nat where
  "CR = 13"

definition DQ :: nat where
  "DQ = 34"

definition SQ :: nat where
  "SQ = 39"

definition SLASH :: nat where
  "SLASH = 47"

definition SPACE :: nat where
  "SPACE = 32"

text \<open>
  Python's \<open>str.isspace\<close>, which is also the class \<open>\s\<close> of \<open>re\<close> on \<open>str\<close>
  patterns: the ASCII white space with the four separators U+001C to U+001F, and the
  Unicode white space U+0085, U+00A0, U+1680, U+2000 to U+200A, U+2028, U+2029, U+202F,
  U+205F and U+3000.
\<close>

definition is_space :: "nat \<Rightarrow> bool" where
  "is_space c =
     ((9 \<le> c \<and> c \<le> 13) \<or> (28 \<le> c \<and> c \<le> 32) \<or> c = 0x85 \<or> c = 0xA0 \<or> c = 0x1680 \<or>
      (0x2000 \<le> c \<and> c \<le> 0x200A) \<or> c = 0x2028 \<or> c = 0x2029 \<or> c = 0x202F \<or>
      c = 0x205F \<or> c = 0x3000)"

text \<open>
  The decimal value of a code point, for the class \<open>\d\<close> and for \<open>int\<close>: the ASCII
  digits have the values 0 to 9, no other ASCII character has one, and beyond ASCII the
  value is that of the Unicode database of the interpreter (the decimal digits of the
  other scripts), which is a parameter \<open>dv\<close>.
\<close>

definition decimal_value :: "(nat \<Rightarrow> nat option) \<Rightarrow> nat \<Rightarrow> nat option" where
  "decimal_value dv c =
     (if 48 \<le> c \<and> c \<le> 57 then Some (c - 48) else if c < 128 then None else dv c)"

definition is_digit :: "(nat \<Rightarrow> nat option) \<Rightarrow> nat \<Rightarrow> bool" where
  "is_digit dv c = (decimal_value dv c \<noteq> None)"

definition strip :: "ustring \<Rightarrow> ustring" where
  "strip s = dropWhile is_space (rev (dropWhile is_space (rev s)))"

definition startswith :: "ustring \<Rightarrow> ustring \<Rightarrow> bool" where
  "startswith s p = (take (length p) s = p)"

definition endswith :: "ustring \<Rightarrow> ustring \<Rightarrow> bool" where
  "endswith s p = (length p \<le> length s \<and> drop (length s - length p) s = p)"

text \<open>The number that a string of decimal digits denotes.\<close>

definition int_of_digits :: "(nat \<Rightarrow> nat option) \<Rightarrow> ustring \<Rightarrow> int" where
  "int_of_digits dv ds =
     foldl (\<lambda>a c. 10 * a + (case decimal_value dv c of None \<Rightarrow> 0 | Some v \<Rightarrow> int v)) 0 ds"

fun str_nat :: "nat \<Rightarrow> ustring" where
  "str_nat n = (if n < 10 then [48 + n] else str_nat (n div 10) @ [48 + n mod 10])"

declare str_nat.simps [simp del]

text \<open>
  \<open>str(i)\<close> for a Python int. (The interpreter refuses to print an int of more digits
  than its limit; the ints printed here are return codes, and ports that \<open>int\<close> has
  accepted under the same limit.)
\<close>

definition str_int :: "int \<Rightarrow> ustring" where
  "str_int i = (if i < 0 then 45 # str_nat (nat (- i)) else str_nat (nat i))"

text \<open>\<open>sep.join(xs)\<close>.\<close>

fun join :: "ustring \<Rightarrow> ustring list \<Rightarrow> ustring" where
  "join sep [] = []"
| "join sep [x] = x"
| "join sep (x # y # xs) = x @ sep @ join sep (y # xs)"

text \<open>\<open>s.split(" ")\<close>: split at every single space, keeping empty fields.\<close>

fun split_sp :: "ustring \<Rightarrow> ustring list" where
  "split_sp [] = [[]]"
| "split_sp (c # cs) =
     (if c = SPACE then [] # split_sp cs
      else (case split_sp cs of [] \<Rightarrow> [[c]] | x # xs \<Rightarrow> (c # x) # xs))"

text \<open>Reading in text mode, with universal newlines: \<open>\r\n\<close> and \<open>\r\<close> are read as \<open>\n\<close>.\<close>

fun universal_newlines :: "ustring \<Rightarrow> ustring" where
  "universal_newlines [] = []"
| "universal_newlines [c] = [if c = CR then NL else c]"
| "universal_newlines (c # d # cs) =
     (if c = CR \<and> d = NL then NL # universal_newlines cs
      else if c = CR then NL # universal_newlines (d # cs)
      else c # universal_newlines (d # cs))"

text \<open>The lines of a text, each with its newline, as iterating a file or \<open>readlines\<close> gives them.\<close>

fun split_lines :: "ustring \<Rightarrow> ustring list" where
  "split_lines [] = []"
| "split_lines (c # cs) =
     (if c = NL then [NL] # split_lines cs
      else (case split_lines cs of [] \<Rightarrow> [[c]] | x # xs \<Rightarrow> (c # x) # xs))"

definition readlines :: "ustring \<Rightarrow> ustring list" where
  "readlines s = split_lines (universal_newlines s)"

subsection \<open>Paths (posixpath)\<close>

text \<open>\<open>os.path.dirname\<close>: the part up to the last slash, without trailing slashes unless it is all slashes.\<close>

definition dirname :: "ustring \<Rightarrow> ustring" where
  "dirname p =
     (let head = rev (dropWhile (\<lambda>c. c \<noteq> SLASH) (rev p))
      in if head \<noteq> [] \<and> \<not> list_all (\<lambda>c. c = SLASH) head
         then rev (dropWhile (\<lambda>c. c = SLASH) (rev head)) else head)"

definition basename :: "ustring \<Rightarrow> ustring" where
  "basename p = rev (takeWhile (\<lambda>c. c \<noteq> SLASH) (rev p))"

text \<open>\<open>os.path.join(a, b)\<close> and its fold over further components.\<close>

definition path_join2 :: "ustring \<Rightarrow> ustring \<Rightarrow> ustring" where
  "path_join2 a b =
     (if startswith b [SLASH] then b
      else if a = [] \<or> endswith a [SLASH] then a @ b
      else a @ [SLASH] @ b)"

definition path_join :: "ustring \<Rightarrow> ustring list \<Rightarrow> ustring" where
  "path_join a ps = foldl path_join2 a ps"

subsection \<open>Exceptions\<close>

datatype exn =
    DpiLibraryDisabled
  | CfgNeverWritten ustring
  | RpcPortNeverOpened int
  | SimulationExitedEarly
  | FileNotFoundError ustring
  | ProcessLookupError
  | OverflowError
  | ValueError
  | KeyError ustring
  | OSError ustring
  | EOFError
  | SystemExit int

subsection \<open>The two regular expressions\<close>

text \<open>
  \<open>re.match(r"^(//|#)\s*PY:(.*)$", line)\<close>, giving group 2. After the comment marker
  and the white space, \<open>.*\<close> takes the characters up to the first newline, and \<open>$\<close>
  matches at the end of the string or before a final newline only.
\<close>

definition match_PY :: "ustring \<Rightarrow> ustring option" where
  "match_PY line =
     (let after_marker =
            (if startswith line (lit ''//'') then Some (drop 2 line)
             else if startswith line (lit ''#'') then Some (drop 1 line)
             else None)
      in case after_marker of
           None \<Rightarrow> None
         | Some r \<Rightarrow>
             (let r1 = dropWhile is_space r
              in if startswith r1 (lit ''PY:'')
                 then (let r2 = drop 3 r1;
                           g = takeWhile (\<lambda>c. c \<noteq> NL) r2;
                           rest = dropWhile (\<lambda>c. c \<noteq> NL) r2
                       in if rest = [] \<or> rest = [NL] then Some g else None)
                 else None))"

text \<open>\<open>re.match("port: (\\d+)", line)\<close>, giving group 1: the longest run of digits after the prefix, if it is not empty.\<close>

definition match_port :: "(nat \<Rightarrow> nat option) \<Rightarrow> ustring \<Rightarrow> ustring option" where
  "match_port dv line =
     (if startswith line (lit ''port: '')
      then (let ds = takeWhile (is_digit dv) (drop 6 line)
            in if ds = [] then None else Some ds)
      else None)"

text \<open>
  \<open>int(ds)\<close> for a non-empty string of decimal digits. The interpreter has a limit on
  the number of digits (\<open>sys.get_int_max_str_digits()\<close>, 4300 unless it was changed, 0
  for no limit and on interpreters older than the limit): beyond it, \<open>int\<close> raises
  \<open>ValueError\<close>.
\<close>

definition py_int :: "(nat \<Rightarrow> nat option) \<Rightarrow> nat \<Rightarrow> ustring \<Rightarrow> exn + int" where
  "py_int dv lim ds =
     (if 0 < lim \<and> lim < length ds then Inl ValueError else Inr (int_of_digits dv ds))"

subsection \<open>Events, the world and the state\<close>

datatype event =
    OpenWrite ustring
  | OpenRead ustring
  | CloseFile ustring
  | Remove ustring
  | WriteFile ustring ustring
  | Print ustring
  | PrintElapsed ustring
  | PrintHelp
  | Mkdir ustring
  | Chdir ustring
  | RunCompile "ustring list"
  | Popen "ustring list"
  | Poll
  | Sleep nat
  | SockCreate
  | SockConnect int
  | SockClose
  | Input ustring
  | RunTest "ustring list"
  | Getpgid
  | Killpg_SIGINT
  | Wait_1s
  | Kill

text \<open>
  The world: what the collaborators do. A time \<open>now\<close> counts the sleeps and the
  re-reads of the configuration file; the simulation is observed at that time.
\<close>

record world =
  unicode_decimal :: "nat \<Rightarrow> nat option"  \<comment> \<open>the decimal values of the code points beyond ASCII\<close>
  int_max_str_digits :: nat  \<comment> \<open>\<open>sys.get_int_max_str_digits()\<close>, 0 for no limit\<close>
  this_file_dir :: ustring  \<comment> \<open>\<open>os.path.dirname(__file__)\<close>\<close>
  sys_executable :: ustring
  cwd :: ustring  \<comment> \<open>\<open>os.getcwd()\<close> during the run\<close>
  environ :: "ustring \<rightharpoonup> ustring"
  files :: "ustring \<rightharpoonup> ustring"  \<comment> \<open>the files when the script starts\<close>
  path_exists :: "ustring \<Rightarrow> bool"  \<comment> \<open>\<open>os.path.exists\<close> of paths outside the test directory\<close>
  compile_error :: "exn option"  \<comment> \<open>what \<open>subprocess.run\<close> of the compiler raises, if it does\<close>
  compile_returncode :: int
  compile_stdout :: ustring
  compile_stderr :: ustring
  popen_error :: "exn option"  \<comment> \<open>what \<open>subprocess.Popen\<close> raises, if it does\<close>
  cfg_file :: "nat \<Rightarrow> ustring option"  \<comment> \<open>cosim.cfg as the simulation left it at a time\<close>
  sim_poll :: "nat \<Rightarrow> int option"  \<comment> \<open>whether the simulation has exited at a time, and its code\<close>
  connect_ex :: "nat \<Rightarrow> int \<Rightarrow> int"  \<comment> \<open>\<open>sock.connect_ex\<close> to a port at a time\<close>
  sim_stdout :: ustring  \<comment> \<open>what the simulation has written when the logs are read\<close>
  sim_stderr :: ustring
  wait_times_out :: bool  \<comment> \<open>\<open>simProc.wait(timeout=1.0)\<close> raises TimeoutExpired\<close>
  input_error :: "exn option"  \<comment> \<open>what \<open>input\<close> raises, if it does\<close>
  test_result :: "exn + int"  \<comment> \<open>\<open>subprocess.run\<close> of the test: raises, or the return code\<close>
  test_stdout :: ustring
  test_stderr :: ustring

text \<open>
  The state of the script: the events so far, the files of the test directory, the
  time, and \<open>simProc.returncode\<close>, which is set once \<open>poll\<close> has seen the simulation
  exited. From then on the process is reaped and its process id is gone.
\<close>

record state =
  trace :: "event list"
  fs :: "ustring \<rightharpoonup> ustring"
  now :: nat
  sim_returncode :: "int option"

definition emit :: "event \<Rightarrow> state \<Rightarrow> state" where
  "emit e st = st\<lparr>trace := trace st @ [e]\<rparr>"

definition emits :: "event list \<Rightarrow> state \<Rightarrow> state" where
  "emits es st = st\<lparr>trace := trace st @ es\<rparr>"

definition initial :: "world \<Rightarrow> state" where
  "initial w = \<lparr>trace = [], fs = files w, now = 0, sim_returncode = None\<rparr>"

subsection \<open>The class CosimTestRunner\<close>

record runner =
  server_only :: bool
  args :: "ustring list"
  "file" :: ustring
  interactive :: bool
  exec :: bool
  exec_args :: ustring
  runs :: "ustring list"
  srcdir :: ustring
  sources :: "ustring list"
  top_name :: ustring  \<comment> \<open>the field \<open>top\<close>\<close>
  tmpdir :: ustring
  sim :: ustring
  simRunScript :: ustring
  schema :: ustring

text \<open>The arguments of the constructor, in its order.\<close>

record init_args =
  a_testFile :: ustring
  a_schema :: ustring
  a_tmpdir :: ustring
  a_addlArgs :: "ustring list"
  a_interactive :: bool
  a_include_aux_files :: bool
  a_exec :: bool
  a_exec_args :: ustring
  a_server_only :: bool
  a_sim :: ustring

definition esiInclude :: ustring where
  "esiInclude = lit ''/home/parallels/circt/build/lib/Dialect/ESI''"

text \<open>The loop of lines 64 to 68: the stripped text after \<open>PY:\<close> of every line that matches, in order.\<close>

fun scan_runs :: "ustring list \<Rightarrow> ustring list \<Rightarrow> ustring list" where
  "scan_runs [] acc = acc"
| "scan_runs (line # ls) acc =
     (case match_PY line of
        None \<Rightarrow> scan_runs ls acc
      | Some g \<Rightarrow> scan_runs ls (acc @ [strip g]))"

text \<open>The constructor after its guard (lines 56 to 81).\<close>

definition init_rest :: "state \<Rightarrow> init_args \<Rightarrow> exn + runner" where
  "init_rest st a =
     (let schema1 = (if a_schema a = []
                     then path_join esiInclude [lit ''runtime'', lit ''cosim'', lit ''CosimDpi.capnp'']
                     else a_schema a);
          aux = (if a_include_aux_files a
                 then [path_join esiInclude [lit ''runtime'', lit ''cosim'', lit ''Cosim_DpiPkg.sv''],
                       path_join esiInclude [lit ''runtime'', lit ''cosim'', lit ''Cosim_Endpoint.sv''],
                       path_join esiInclude [lit ''runtime'', lit ''cosim'', lit ''Cosim_Manifest.sv''],
                       path_join esiInclude [lit ''runtime'', lit ''cosim'', lit ''Cosim_MMIO.sv''],
                       path_join esiInclude [lit ''ESIPrimitives.sv'']]
                 else []);
          mk = (\<lambda>rs. \<lparr>server_only = a_server_only a, args = a_addlArgs a, file = a_testFile a,
                      interactive = a_interactive a, exec = a_exec a, exec_args = a_exec_args a,
                      runs = rs, srcdir = dirname (a_testFile a), sources = aux @ [[]],
                      top_name = lit ''top'', tmpdir = a_tmpdir a, sim = a_sim a,
                      simRunScript =
                        path_join (lit ''/home/parallels/circt/build/bin'') [lit ''circt-rtl-sim.py''],
                      schema = schema1\<rparr>)
      in if \<not> a_exec a \<and> \<not> a_server_only a
         then (case fs st (a_testFile a) of
                 None \<Rightarrow> Inl (FileNotFoundError (a_testFile a))
               | Some content \<Rightarrow> Inr (mk (scan_runs (readlines content) [])))
         else Inr (mk []))"

text \<open>
  The constructor. Its guard (line 52) compares two empty string literals and, failing
  that, asks whether the empty path exists.
\<close>

definition init :: "world \<Rightarrow> state \<Rightarrow> init_args \<Rightarrow> exn + runner" where
  "init w st a =
     (if ([] :: ustring) = [] \<or> \<not> path_exists w []
      then Inl DpiLibraryDisabled
      else init_rest st a)"

subsection \<open>writeScript\<close>

text \<open>The text written to script.py for a port: the variables, the imports and paths, then the lines of \<open>runs\<close>.\<close>

definition script_preamble :: "world \<Rightarrow> runner \<Rightarrow> int \<Rightarrow> ustring" where
  "script_preamble w r port =
     concat (map (\<lambda>(name, v). name @ lit '' = '' @ [DQ] @ v @ [DQ] @ [NL])
               [(lit ''srcdir'', srcdir r), (lit ''srcfile'', file r), (lit ''rpcschemapath'', schema r)])
     @ [NL, NL]
     @ lit ''import os'' @ [NL]
     @ lit ''import sys'' @ [NL]
     @ lit ''sys.path.append('' @ [DQ] @ dirname (file r) @ [DQ] @ lit '')'' @ [NL]
     @ lit ''sys.path.append('' @ [DQ] @ this_file_dir w @ [DQ] @ lit '')'' @ [NL]
     @ [NL, NL]
     @ lit ''tmpdir = '' @ [SQ] @ tmpdir r @ [SQ] @ [NL]
     @ lit ''simhostport = f'' @ [SQ] @ lit ''{os.uname()[1]}:'' @ str_int port @ [SQ] @ [NL]"

definition script_text :: "world \<Rightarrow> runner \<Rightarrow> int \<Rightarrow> ustring" where
  "script_text w r port = script_preamble w r port @ concat (map (\<lambda>x. x @ [NL]) (runs r))"

definition writeScript :: "world \<Rightarrow> runner \<Rightarrow> int \<Rightarrow> state \<Rightarrow> state" where
  "writeScript w r port st =
     (emits [OpenWrite (lit ''script.py''), WriteFile (lit ''script.py'') (script_text w r port),
             CloseFile (lit ''script.py'')] st)
       \<lparr>fs := (fs st)(lit ''script.py'' \<mapsto> script_text w r port)\<rparr>"

subsection \<open>compile\<close>

definition compile_cmd :: "runner \<Rightarrow> ustring list" where
  "compile_cmd r =
     [simRunScript r, lit ''--no-objdir'', lit ''--no-run'']
     @ (if sim r \<noteq> [] then [lit ''--sim'', sim r] else [])
     @ sources r @ args r"

text \<open>
  \<open>subprocess.run\<close> starts the compiler driver, or raises when it cannot be started.
  The driver exits with the return code of the world; its output is printed when that
  code is not zero. The method returns the code.
\<close>

definition compile :: "world \<Rightarrow> runner \<Rightarrow> state \<Rightarrow> (exn + int) \<times> state" where
  "compile w r st =
     (let cmd = compile_cmd r;
          st1 = emits [Print (lit ''[INFO] Compile command: '' @ join [SPACE] cmd), RunCompile cmd] st
      in case compile_error w of
           Some e \<Rightarrow> (Inl e, st1)
         | None \<Rightarrow>
             (let output = compile_stdout w @ [NL] @ lit ''----- STDERR ------'' @ [NL] @ compile_stderr w;
                  st2 = (if compile_returncode w \<noteq> 0
                         then emits [Print (lit ''====== Compilation failure:''), Print output] st1
                         else st1)
              in (Inr (compile_returncode w), emit (PrintElapsed (lit ''[INFO] Compile time: '')) st2)))"

subsection \<open>isPortOpen\<close>

text \<open>
  \<open>connect_ex\<close> raises \<open>OverflowError\<close> for a port outside 0 to 65535, before any
  connection is tried; the statement that closes the socket is then not reached.
\<close>

definition isPortOpen :: "world \<Rightarrow> int \<Rightarrow> state \<Rightarrow> (exn + bool) \<times> state" where
  "isPortOpen w port st =
     (if port < 0 \<or> 65535 < port then (Inl OverflowError, emit SockCreate st)
      else (let result = connect_ex w (now st) port;
                st1 = emits [SockCreate, SockConnect port, SockClose] st
            in (Inr (if result = 0 then True else False), st1)))"

subsection \<open>run: the phases of the try block\<close>

definition sleep :: "nat \<Rightarrow> state \<Rightarrow> state" where
  "sleep ms st = (emit (Sleep ms) st)\<lparr>now := now st + 1\<rparr>"

text \<open>
  \<open>simProc.poll()\<close>: the return code once it is known; otherwise the process is asked,
  and when it has exited it is reaped and its code kept.
\<close>

definition poll :: "world \<Rightarrow> state \<Rightarrow> int option \<times> state" where
  "poll w st =
     (case sim_returncode st of
        Some rc \<Rightarrow> (Some rc, emit Poll st)
      | None \<Rightarrow>
          (case sim_poll w (now st) of
             None \<Rightarrow> (None, emit Poll st)
           | Some rc \<Rightarrow> (Some rc, (emit Poll st)\<lparr>sim_returncode := Some rc\<rparr>)))"

definition open_w :: "ustring \<Rightarrow> state \<Rightarrow> state" where
  "open_w name st = (emit (OpenWrite name) st)\<lparr>fs := (fs st)(name \<mapsto> [])\<rparr>"

definition portFileName :: ustring where
  "portFileName = lit ''cosim.cfg''"

text \<open>Lines 145 to 158: the log files are opened for writing, an old configuration file is removed.\<close>

definition run_setup :: "runner \<Rightarrow> state \<Rightarrow> state" where
  "run_setup r st =
     (let st1 = open_w (lit ''sim_stderr.log'') (open_w (lit ''sim_stdout.log'') st);
          st2 = (if interactive r then st1
                 else open_w (lit ''test_stderr.log'') (open_w (lit ''test_stdout.log'') st1))
      in if fs st2 portFileName \<noteq> None
         then (emit (Remove portFileName) st2)\<lparr>fs := (fs st2)(portFileName := None)\<rparr>
         else st2)"

definition sim_cmd :: "runner \<Rightarrow> ustring list" where
  "sim_cmd r =
     [simRunScript r, lit ''--no-objdir'']
     @ (if sim r \<noteq> [] then [lit ''--sim'', sim r] else [])
     @ sources r @ args r"

text \<open>
  Lines 169 to 175 when \<open>Popen\<close> returns: the simulation runs in its own session, its
  output goes to the two log files (held here as they are when the logs are read), and
  the script closes its handles.
\<close>

definition launched :: "world \<Rightarrow> runner \<Rightarrow> state \<Rightarrow> state" where
  "launched w r st =
     (emits [Popen (sim_cmd r), CloseFile (lit ''sim_stderr.log''), CloseFile (lit ''sim_stdout.log'')] st)
       \<lparr>fs := (fs st)(lit ''sim_stdout.log'' \<mapsto> sim_stdout w, lit ''sim_stderr.log'' \<mapsto> sim_stderr w)\<rparr>"

text \<open>
  The first loop of port discovery (lines 178 to 184). The process is polled only when
  the file is absent.
\<close>

function waitCfg :: "world \<Rightarrow> nat \<Rightarrow> state \<Rightarrow> (exn + unit) \<times> state" where
  "waitCfg w checkCount st =
     (if cfg_file w (now st) = None
      then (case poll w st of
              (None, st1) \<Rightarrow>
                (let st2 = sleep 100 st1
                 in if checkCount + 1 > 200
                    then (Inl (CfgNeverWritten portFileName), st2)
                    else waitCfg w (checkCount + 1) st2)
            | (Some rc, st1) \<Rightarrow> (Inr (), st1))
      else (Inr (), st))"
  by pat_completeness auto
termination
  by (relation "measure (\<lambda>(w, checkCount, st). 201 - checkCount)") auto

declare waitCfg.simps [simp del]

text \<open>The loop over the lines of the file (lines 188 to 191); \<open>int\<close> may raise.\<close>

fun scan_port :: "(nat \<Rightarrow> nat option) \<Rightarrow> nat \<Rightarrow> ustring list \<Rightarrow> int \<Rightarrow> exn + int" where
  "scan_port dv lim [] port = Inr port"
| "scan_port dv lim (line # ls) port =
     (case match_port dv line of
        None \<Rightarrow> scan_port dv lim ls port
      | Some ds \<Rightarrow>
          (case py_int dv lim ds of
             Inl e \<Rightarrow> Inl e
           | Inr p \<Rightarrow> scan_port dv lim ls p))"

text \<open>
  The second loop (lines 185 to 192). It has no bound: it reads the file again until a
  line has matched, so it is a partial function, \<open>None\<close> being a loop that never ends.
  An exception of \<open>int\<close> leaves the loop with the file open.
\<close>

partial_function (option) readPort :: "world \<Rightarrow> int \<Rightarrow> state \<Rightarrow> ((exn + int) \<times> state) option" where
  "readPort w port st =
     (if port < 0
      then (case cfg_file w (now st) of
              None \<Rightarrow> Some (Inl (FileNotFoundError portFileName), emit (OpenRead portFileName) st)
            | Some content \<Rightarrow>
                (case scan_port (unicode_decimal w) (int_max_str_digits w) (readlines content) port of
                   Inl e \<Rightarrow> Some (Inl e, emit (OpenRead portFileName) st)
                 | Inr p \<Rightarrow>
                     readPort w p
                       ((emits [OpenRead portFileName, CloseFile portFileName] st)\<lparr>now := now st + 1\<rparr>)))
      else Some (Inr port, st))"

declare readPort.simps [code]

text \<open>Port discovery as a whole (lines 178 to 192).\<close>

definition portDiscovery :: "world \<Rightarrow> state \<Rightarrow> ((exn + int) \<times> state) option" where
  "portDiscovery w st =
     (case waitCfg w 0 st of
        (Inl e, st1) \<Rightarrow> Some (Inl e, st1)
      | (Inr u, st1) \<Rightarrow> readPort w (- 1) st1)"

text \<open>
  The loop of the readiness probe (lines 196 to 202): after a failed attempt the budget
  is checked first, then the process.
\<close>

function waitRpc :: "world \<Rightarrow> int \<Rightarrow> nat \<Rightarrow> state \<Rightarrow> (exn + unit) \<times> state" where
  "waitRpc w port checkCount st =
     (case isPortOpen w port st of
        (Inl e, st1) \<Rightarrow> (Inl e, st1)
      | (Inr isopen, st1) \<Rightarrow>
          if \<not> isopen
          then (if checkCount + 1 > 200
                then (Inl (RpcPortNeverOpened port), st1)
                else (case poll w st1 of
                        (Some rc, st2) \<Rightarrow> (Inl SimulationExitedEarly, st2)
                      | (None, st2) \<Rightarrow> waitRpc w port (checkCount + 1) (sleep 50 st2)))
          else (Inr (), st1))"
  by pat_completeness auto
termination
  by (relation "measure (\<lambda>(w, port, checkCount, st). 201 - checkCount)") auto

declare waitRpc.simps [simp del]

definition readinessProbe :: "world \<Rightarrow> int \<Rightarrow> state \<Rightarrow> (exn + unit) \<times> state" where
  "readinessProbe w port st = waitRpc w port 0 st"

text \<open>The command of the test (lines 222 to 233).\<close>

definition test_cmd :: "world \<Rightarrow> runner \<Rightarrow> int \<Rightarrow> ustring list" where
  "test_cmd w r port =
     filter (\<lambda>x. x \<noteq> [])
       (if exec r
        then (let targs = [lit ''cosim'', lit ''localhost:'' @ str_int port, schema r]
                            @ split_sp (exec_args r)
              in if endswith (file r) (lit ''.py'')
                 then [sys_executable w, lit ''-u'', file r] @ targs
                 else [file r] @ targs)
        else [sys_executable w, lit ''-u'', lit ''script.py''])"

text \<open>
  Lines 208 to 242: in server-only mode the script waits for the operator and
  \<open>testProc\<close> stays \<open>None\<close>; otherwise the test runs and \<open>testProc\<close> holds its return
  code. The result is the value of \<open>testProc\<close>, or the exception.
\<close>

definition test_phase :: "world \<Rightarrow> runner \<Rightarrow> int \<Rightarrow> state \<Rightarrow> (exn + int option) \<times> state" where
  "test_phase w r port st =
     (if server_only r
      then (let st1 = emit (Input (lit ''Running in server-only mode on port '' @ str_int port
                                     @ lit '' - Press anything to kill the server...'')) st
            in case input_error w of
                 Some e \<Rightarrow> (Inl e, st1)
               | None \<Rightarrow> (Inr None, st1))
      else (case environ w (lit ''PYTHONPATH'') of
              None \<Rightarrow> (Inl (KeyError (lit ''PYTHONPATH'')), st)
            | Some pp \<Rightarrow>
                (let cmd = test_cmd w r port;
                     st1 = emits [Print (lit ''[INFO] Test run command: '' @ join [SPACE] cmd), RunTest cmd] st
                 in case test_result w of
                      Inl e \<Rightarrow> (Inl e, st1)
                    | Inr rc \<Rightarrow>
                        (if interactive r then (Inr (Some rc), st1)
                         else (Inr (Some rc),
                               (emits [CloseFile (lit ''test_stdout.log''), CloseFile (lit ''test_stderr.log'')] st1)
                                 \<lparr>fs := (fs st1)(lit ''test_stdout.log'' \<mapsto> test_stdout w,
                                                  lit ''test_stderr.log'' \<mapsto> test_stderr w)\<rparr>)))))"

text \<open>The try block from the return of \<open>Popen\<close> on (lines 177 to 242).\<close>

definition run_after_launch :: "world \<Rightarrow> runner \<Rightarrow> state \<Rightarrow> ((exn + int option) \<times> state) option" where
  "run_after_launch w r st =
     (case portDiscovery w st of
        None \<Rightarrow> None
      | Some (Inl e, st1) \<Rightarrow> Some (Inl e, st1)
      | Some (Inr port, st1) \<Rightarrow>
          (case readinessProbe w port st1 of
             (Inl e, st2) \<Rightarrow> Some (Inl e, st2)
           | (Inr u, st2) \<Rightarrow>
               Some (test_phase w r port (if \<not> exec r then writeScript w r port st2 else st2))))"

subsection \<open>readLogs\<close>

text \<open>The four files are read in text mode.\<close>

definition read_text :: "state \<Rightarrow> ustring \<Rightarrow> exn + ustring" where
  "read_text st name =
     (case fs st name of
        None \<Rightarrow> Inl (FileNotFoundError name)
      | Some content \<Rightarrow> Inr (universal_newlines content))"

definition readLogs :: "state \<Rightarrow> exn + (bool \<times> ustring)" where
  "readLogs st =
     (case read_text st (lit ''sim_stdout.log'') of
        Inl e \<Rightarrow> Inl e
      | Inr so \<Rightarrow>
     (case read_text st (lit ''sim_stderr.log'') of
        Inl e \<Rightarrow> Inl e
      | Inr se \<Rightarrow>
     (case read_text st (lit ''test_stdout.log'') of
        Inl e \<Rightarrow> Inl e
      | Inr to \<Rightarrow>
     (case read_text st (lit ''test_stderr.log'') of
        Inl e \<Rightarrow> Inl e
      | Inr te \<Rightarrow>
          Inr (se \<noteq> [] \<or> te \<noteq> [],
               lit ''----- Simulation stdout -----'' @ [NL] @ so
               @ (if se \<noteq> [] then [NL] @ lit ''----- Simulation stderr -----'' @ [NL] @ se else [])
               @ [NL] @ lit ''----- Test stdout -----'' @ [NL] @ to
               @ (if te \<noteq> [] then [NL] @ lit ''----- Test stderr -----'' @ [NL] @ te else []))))))"

subsection \<open>run: the finally block and the whole method\<close>

text \<open>
  Lines 245 to 252, run when \<open>simProc\<close> is set. \<open>os.getpgid\<close> raises
  \<open>ProcessLookupError\<close> when the process has been reaped, that is when a \<open>poll\<close> has
  seen it exited; then no signal is sent and nothing is waited for.
\<close>

definition teardown_events :: "world \<Rightarrow> event list" where
  "teardown_events w = [Killpg_SIGINT, Wait_1s] @ (if wait_times_out w then [Kill] else [])"

definition teardown :: "world \<Rightarrow> state \<Rightarrow> (exn + unit) \<times> state" where
  "teardown w st =
     (if sim_returncode st \<noteq> None then (Inl ProcessLookupError, emit Getpgid st)
      else (Inr (), emits (Getpgid # teardown_events w) st))"

text \<open>
  The rest of the finally block and the return (lines 254 to 266), given how the try
  block ended. An exception of the try block is raised again after the block; an
  exception of \<open>readLogs\<close> replaces it.
\<close>

definition report :: "(exn + int option) \<Rightarrow> state \<Rightarrow> (exn + int) \<times> state" where
  "report res st =
     (let st2 = emit (PrintElapsed (lit ''[INFO] Run time: '')) st
      in case readLogs st2 of
           Inl e \<Rightarrow> (Inl e, st2)
         | Inr (err, logs) \<Rightarrow>
             (let testProc = (case res of Inl e \<Rightarrow> None | Inr t \<Rightarrow> t);
                  logs1 = (case testProc of
                             None \<Rightarrow> logs
                           | Some rc \<Rightarrow> logs @ lit ''---- Test process exit code: '' @ str_int rc @ [NL]);
                  passed = (case testProc of None \<Rightarrow> False | Some rc \<Rightarrow> rc = 0 \<and> \<not> err);
                  st3 = (if \<not> passed then emit (Print logs1) st2 else st2)
              in case res of
                   Inl e \<Rightarrow> (Inl e, st3)
                 | Inr t \<Rightarrow> (Inr (if passed then 0 else 1), st3)))"

text \<open>
  The finally block (lines 243 to 266), given whether \<open>simProc\<close> is set and how the try
  block ended. An exception of the teardown ends the block at once and replaces the
  exception of the try block.
\<close>

definition run_finally :: "world \<Rightarrow> bool \<Rightarrow> (exn + int option) \<Rightarrow> state \<Rightarrow> (exn + int) \<times> state" where
  "run_finally w simProc res st =
     (if simProc
      then (case teardown w st of
              (Inl e, st1) \<Rightarrow> (Inl e, st1)
            | (Inr u, st1) \<Rightarrow> report res st1)
      else report res st)"

definition run :: "world \<Rightarrow> runner \<Rightarrow> state \<Rightarrow> ((exn + int) \<times> state) option" where
  "run w r st =
     (let st1 = emit (Print (lit ''[INFO] Sim run command: '' @ join [SPACE] (sim_cmd r))) (run_setup r st)
      in case popen_error w of
           Some e \<Rightarrow> Some (run_finally w False (Inl e) st1)
         | None \<Rightarrow>
             (case run_after_launch w r (launched w r st1) of
                None \<Rightarrow> None
              | Some (res, st2) \<Rightarrow> Some (run_finally w True res st2)))"

subsection \<open>The entry point\<close>

record cli_args =
  c_interactive :: bool
  c_sim :: ustring
  c_schema :: ustring
  c_tmpdir :: ustring
  c_no_aux_files :: bool
  c_exec :: bool
  c_test_args :: ustring
  c_server_only :: bool
  c_source :: ustring
  c_addlArgs :: "ustring list"

text \<open>Lines 361 to 364: compile, return its code if it is not zero, otherwise run.\<close>

definition main_tail :: "world \<Rightarrow> runner \<Rightarrow> state \<Rightarrow> ((exn + int option) \<times> state) option" where
  "main_tail w r st =
     (case compile w r st of
        (Inl e, st1) \<Rightarrow> Some (Inl e, st1)
      | (Inr rc, st1) \<Rightarrow>
          if rc \<noteq> 0 then Some (Inr (Some rc), st1)
          else (case run w r st1 of
                  None \<Rightarrow> None
                | Some (Inl e, st2) \<Rightarrow> Some (Inl e, st2)
                | Some (Inr v, st2) \<Rightarrow> Some (Inr (Some v), st2)))"

text \<open>
  \<open>__main__\<close>. The parser of \<open>argparse\<close> is a parameter: it gives the options, or the
  \<open>SystemExit\<close> it raises. A bare \<open>return\<close> is the value \<open>None\<close>.
\<close>

definition main :: "(ustring list \<Rightarrow> exn + cli_args) \<Rightarrow> world \<Rightarrow> ustring list
    \<Rightarrow> ((exn + int option) \<times> state) option" where
  "main parse_args w argv =
     (let st = initial w
      in if length argv \<le> 1 then Some (Inr None, emit PrintHelp st)
         else (case parse_args (tl argv) of
                 Inl e \<Rightarrow> Some (Inl e, st)
               | Inr a \<Rightarrow>
                   (let testDir = basename (c_source a) @ lit ''.d'';
                        st1 = (if \<not> path_exists w testDir then emit (Mkdir testDir) st else st);
                        st2 = emit (Chdir testDir) st1
                    in case init w st2
                              \<lparr>a_testFile = c_source a, a_schema = c_schema a, a_tmpdir = c_tmpdir a,
                               a_addlArgs = c_addlArgs a, a_interactive = c_interactive a,
                               a_include_aux_files = (\<not> c_no_aux_files a), a_exec = c_exec a,
                               a_exec_args = c_test_args a, a_server_only = c_server_only a,
                               a_sim = c_sim a\<rparr> of
                         Inl e \<Rightarrow> Some (Inl e, st2)
                       | Inr r \<Rightarrow> main_tail w r st2)))"

text \<open>
  The exit status of the process for \<open>sys.exit(__main__(sys.argv))\<close>: zero for \<open>None\<close>,
  the low eight bits of an integer, one for an exception that nothing catches.
\<close>

fun exit_status :: "exn + int option \<Rightarrow> int" where
  "exit_status (Inr None) = 0"
| "exit_status (Inr (Some n)) = n mod 256"
| "exit_status (Inl (SystemExit n)) = n mod 256"
| "exit_status (Inl e) = 1"

subsection \<open>Vocabulary of the statements\<close>

fun is_launch :: "event \<Rightarrow> bool" where
  "is_launch (Popen c) = True"
| "is_launch e = False"

fun is_compile :: "event \<Rightarrow> bool" where
  "is_compile (RunCompile c) = True"
| "is_compile e = False"

text \<open>
  What the claims call a line matching \<open>port: <digits>\<close>, in the words of the regular
  expression and not of its implementation: the line is \<open>port: \<close>, then the digits
  \<open>ds\<close>, at least one, then a rest that does not go on with a digit.
\<close>

definition spec_port_line :: "(nat \<Rightarrow> nat option) \<Rightarrow> ustring \<Rightarrow> ustring \<Rightarrow> bool" where
  "spec_port_line dv line ds =
     (ds \<noteq> [] \<and> list_all (\<lambda>c. decimal_value dv c \<noteq> None) ds \<and>
      (\<exists>rest. line = lit ''port: '' @ ds @ rest \<and>
              (case rest of [] \<Rightarrow> True | c # cs \<Rightarrow> decimal_value dv c = None)))"

text \<open>The integer that a string of digits denotes in base ten: the sum of its digits times the powers of ten.\<close>

definition spec_decimal :: "(nat \<Rightarrow> nat option) \<Rightarrow> ustring \<Rightarrow> int" where
  "spec_decimal dv ds =
     (\<Sum>i\<leftarrow>[0..<length ds].
        (case decimal_value dv (ds ! i) of None \<Rightarrow> 0 | Some v \<Rightarrow> int v) * 10 ^ (length ds - 1 - i))"

text \<open>The digits of the lines that match, in the order of the lines, and the ports they denote.\<close>

definition digit_runs :: "(nat \<Rightarrow> nat option) \<Rightarrow> ustring list \<Rightarrow> ustring list" where
  "digit_runs dv ls = List.map_filter (match_port dv) ls"

definition port_lines :: "(nat \<Rightarrow> nat option) \<Rightarrow> ustring list \<Rightarrow> int list" where
  "port_lines dv ls = map (spec_decimal dv) (digit_runs dv ls)"

text \<open>Whether \<open>int\<close> accepts a string of digits under a limit (0 for no limit).\<close>

definition within_limit :: "nat \<Rightarrow> ustring \<Rightarrow> bool" where
  "within_limit lim ds = (lim = 0 \<or> length ds \<le> lim)"

subsection \<open>Concrete worlds and runners\<close>

text \<open>
  A world in which everything goes well: the simulation writes its configuration file
  after two polls, with a line that does not match before the port line, the port
  accepts connections from time 4 on, and the test prints 1 and exits with code 0.
  Of the digits beyond ASCII it knows the Arabic-Indic ones.
\<close>

definition demo_world :: world where
  "demo_world =
     \<lparr>unicode_decimal = (\<lambda>c. if 0x660 \<le> c \<and> c \<le> 0x669 then Some (c - 0x660) else None),
      int_max_str_digits = 4300,
      this_file_dir = lit ''/opt/circt/bin'', sys_executable = lit ''/usr/bin/python3'',
      cwd = lit ''/tmp/t.sv.d'',
      environ = [lit ''PYTHONPATH'' \<mapsto> lit ''/opt/lib''],
      files = [lit ''t.sv'' \<mapsto> lit ''// PY: x = 1'' @ [NL] @ lit ''module top();'' @ [NL]
                                  @ lit ''//   PY:  print(x)  '' @ [NL]],
      path_exists = (\<lambda>p. False),
      compile_error = None, compile_returncode = 0, compile_stdout = lit ''ok'', compile_stderr = [],
      popen_error = None,
      cfg_file = (\<lambda>t. if t < 2 then None else Some (lit ''garbage'' @ [NL] @ lit ''port: 4711'' @ [NL])),
      sim_poll = (\<lambda>t. None),
      connect_ex = (\<lambda>t p. if t < 4 then 111 else 0),
      sim_stdout = lit ''sim up'' @ [NL], sim_stderr = [],
      wait_times_out = False,
      input_error = None,
      test_result = Inr 0,
      test_stdout = lit ''1'' @ [NL], test_stderr = []\<rparr>"

definition demo_args :: init_args where
  "demo_args =
     \<lparr>a_testFile = lit ''t.sv'', a_schema = lit ''/s.capnp'', a_tmpdir = lit ''/tmp'', a_addlArgs = [],
      a_interactive = False, a_include_aux_files = False, a_exec = False, a_exec_args = [],
      a_server_only = False, a_sim = []\<rparr>"

definition demo_runner :: runner where
  "demo_runner =
     \<lparr>server_only = False, args = [], file = lit ''t.sv'', interactive = False, exec = False,
      exec_args = [], runs = [lit ''x = 1'', lit ''print(x)''], srcdir = [], sources = [[]],
      top_name = lit ''top'', tmpdir = lit ''/tmp'', sim = [],
      simRunScript = lit ''/home/parallels/circt/build/bin/circt-rtl-sim.py'', schema = lit ''/s.capnp''\<rparr>"

definition demo_cli :: cli_args where
  "demo_cli =
     \<lparr>c_interactive = False, c_sim = [], c_schema = [], c_tmpdir = [], c_no_aux_files = False,
      c_exec = False, c_test_args = [], c_server_only = False, c_source = lit ''t.sv'', c_addlArgs = []\<rparr>"

text \<open>\<open>argparse\<close> on a command line that it rejects: it prints the usage and exits with status 2.\<close>

definition rejecting_parser :: "ustring list \<Rightarrow> exn + cli_args" where
  "rejecting_parser argv = Inl (SystemExit 2)"

text \<open>The same world with a compiler that exits with code 2.\<close>

definition failing_compile_world :: world where
  "failing_compile_world = demo_world\<lparr>compile_returncode := 2, compile_stderr := lit ''syntax error''\<rparr>"

text \<open>The same world with a simulation that the one-second wait does not see exit, and a test that exits with code 3.\<close>

definition failing_test_world :: world where
  "failing_test_world = demo_world\<lparr>test_result := Inr 3, wait_times_out := True\<rparr>"

text \<open>The same world with a simulation that writes a warning to its stderr.\<close>

definition stderr_world :: world where
  "stderr_world = demo_world\<lparr>sim_stderr := lit ''warning'' @ [NL]\<rparr>"

text \<open>The runner in server-only mode.\<close>

definition server_runner :: runner where
  "server_runner = demo_runner\<lparr>server_only := True\<rparr>"

text \<open>A world whose simulation exits with code 1 at the third poll, never having written the file.\<close>

definition early_exit_world :: world where
  "early_exit_world = demo_world\<lparr>cfg_file := (\<lambda>t. None), sim_poll := (\<lambda>t. if t < 2 then None else Some 1)\<rparr>"

text \<open>A world whose simulation never writes the file and never exits.\<close>

definition silent_world :: world where
  "silent_world = demo_world\<lparr>cfg_file := (\<lambda>t. None)\<rparr>"

text \<open>A world whose port never accepts a connection, and one whose simulation exits at time 5.\<close>

definition closed_port_world :: world where
  "closed_port_world = demo_world\<lparr>connect_ex := (\<lambda>t p. 111)\<rparr>"

definition dying_world :: world where
  "dying_world = demo_world\<lparr>connect_ex := (\<lambda>t p. 111), sim_poll := (\<lambda>t. if t < 5 then None else Some 1)\<rparr>"

text \<open>A world whose simulation writes a port line of 4301 digits, with the default limit of 4300.\<close>

definition long_port_world :: world where
  "long_port_world = demo_world\<lparr>cfg_file := (\<lambda>t. Some (lit ''port: '' @ replicate 4301 49 @ [NL]))\<rparr>"

text \<open>A world whose simulation writes, from the start, a port that no socket takes.\<close>

definition big_port_world :: world where
  "big_port_world = demo_world\<lparr>cfg_file := (\<lambda>t. Some (lit ''port: 70000'' @ [NL]))\<rparr>"

subsection \<open>Traces of the polling loops\<close>

text \<open>The state after some more events and some more time.\<close>

definition advance :: "event list \<Rightarrow> nat \<Rightarrow> state \<Rightarrow> state" where
  "advance es k st = st\<lparr>trace := trace st @ es, now := now st + k\<rparr>"

text \<open>\<open>k\<close> rounds of the first loop of port discovery: a poll of the process, then 100 ms of sleep.\<close>

definition poll_sleeps :: "nat \<Rightarrow> event list" where
  "poll_sleeps k = concat (replicate k [Poll, Sleep 100])"

text \<open>One connection attempt of the probe, and \<open>k\<close> rounds of attempt, poll of the process and 50 ms of sleep.\<close>

definition attempt :: "int \<Rightarrow> event list" where
  "attempt port = [SockCreate, SockConnect port, SockClose]"

definition probe_rounds :: "int \<Rightarrow> nat \<Rightarrow> event list" where
  "probe_rounds port k = concat (replicate k (attempt port @ [Poll, Sleep 50]))"

text \<open>The state in which a poll has found the simulation exited with a code.\<close>

definition reaped :: "int \<Rightarrow> state \<Rightarrow> state" where
  "reaped rc st = (emit Poll st)\<lparr>sim_returncode := Some rc\<rparr>"

subsection \<open>Runs that reach the test phase\<close>

text \<open>The state of \<open>run\<close> just before \<open>Popen\<close>.\<close>

definition pre_launch :: "runner \<Rightarrow> state \<Rightarrow> state" where
  "pre_launch r st =
     emit (Print (lit ''[INFO] Sim run command: '' @ join [SPACE] (sim_cmd r))) (run_setup r st)"

text \<open>
  A world in which \<open>run\<close>, started at a state, reaches the test phase: the simulation
  starts, the file is there at check \<open>k1\<close> with the port as its last matching line, the
  port is one that a socket takes, and it accepts a connection at attempt \<open>k2\<close>, the
  simulation being alive until then.
\<close>

definition reaches_test :: "world \<Rightarrow> state \<Rightarrow> nat \<Rightarrow> nat \<Rightarrow> int \<Rightarrow> bool" where
  "reaches_test w st k1 k2 port =
     (popen_error w = None \<and> sim_returncode st = None \<and> k1 \<le> 200 \<and> k2 \<le> 200 \<and> port \<le> 65535 \<and>
      list_all (\<lambda>j. cfg_file w (now st + j) = None \<and> sim_poll w (now st + j) = None) [0..<k1] \<and>
      (case cfg_file w (now st + k1) of
         None \<Rightarrow> False
       | Some content \<Rightarrow>
           digit_runs (unicode_decimal w) (readlines content) \<noteq> [] \<and>
           list_all (within_limit (int_max_str_digits w)) (digit_runs (unicode_decimal w) (readlines content)) \<and>
           port = last (port_lines (unicode_decimal w) (readlines content))) \<and>
      list_all (\<lambda>j. connect_ex w (now st + k1 + 1 + j) port \<noteq> 0 \<and>
                    sim_poll w (now st + k1 + 1 + j) = None) [0..<k2] \<and>
      connect_ex w (now st + k1 + 1 + k2) port = 0)"

text \<open>The state in which the probe has then reported the port open.\<close>

definition ready_state :: "world \<Rightarrow> runner \<Rightarrow> nat \<Rightarrow> nat \<Rightarrow> int \<Rightarrow> state \<Rightarrow> state" where
  "ready_state w r k1 k2 port st =
     advance (poll_sleeps k1 @ [OpenRead (lit ''cosim.cfg''), CloseFile (lit ''cosim.cfg'')]
                @ probe_rounds port k2 @ attempt port)
       (k1 + 1 + k2) (launched w r (pre_launch r st))"

section \<open>Lemmas about the phases\<close>

lemma lit_eq_iff [simp]: "lit a = lit b \<longleftrightarrow> a = b"
  by (simp add: lit_def inj_map_eq_map inj_on_def)

lemma length_lit [simp]: "length (lit s) = length s"
  by (simp add: lit_def)

lemma lit_Nil [simp]: "lit [] = []"
  by (simp add: lit_def)

lemma state_emit [simp]:
  "trace (emit e st) = trace st @ [e]"
  "fs (emit e st) = fs st"
  "now (emit e st) = now st"
  "sim_returncode (emit e st) = sim_returncode st"
  by (simp_all add: emit_def)

lemma state_emits [simp]:
  "trace (emits es st) = trace st @ es"
  "fs (emits es st) = fs st"
  "now (emits es st) = now st"
  "sim_returncode (emits es st) = sim_returncode st"
  by (simp_all add: emits_def)

lemma state_sleep [simp]:
  "trace (sleep ms st) = trace st @ [Sleep ms]"
  "fs (sleep ms st) = fs st"
  "now (sleep ms st) = now st + 1"
  "sim_returncode (sleep ms st) = sim_returncode st"
  by (simp_all add: sleep_def)

lemma state_advance [simp]:
  "trace (advance es k st) = trace st @ es"
  "fs (advance es k st) = fs st"
  "now (advance es k st) = now st + k"
  "sim_returncode (advance es k st) = sim_returncode st"
  by (simp_all add: advance_def)

lemma state_reaped [simp]:
  "trace (reaped rc st) = trace st @ [Poll]"
  "fs (reaped rc st) = fs st"
  "now (reaped rc st) = now st"
  "sim_returncode (reaped rc st) = Some rc"
  by (simp_all add: reaped_def)

lemma state_writeScript [simp]:
  "trace (writeScript w r port st) =
     trace st @ [OpenWrite (lit ''script.py''), WriteFile (lit ''script.py'') (script_text w r port),
                 CloseFile (lit ''script.py'')]"
  "fs (writeScript w r port st) = (fs st)(lit ''script.py'' \<mapsto> script_text w r port)"
  "now (writeScript w r port st) = now st"
  "sim_returncode (writeScript w r port st) = sim_returncode st"
  by (simp_all add: writeScript_def)

lemma state_launched [simp]:
  "trace (launched w r st) =
     trace st @ [Popen (sim_cmd r), CloseFile (lit ''sim_stderr.log''), CloseFile (lit ''sim_stdout.log'')]"
  "fs (launched w r st) =
     (fs st)(lit ''sim_stdout.log'' \<mapsto> sim_stdout w, lit ''sim_stderr.log'' \<mapsto> sim_stderr w)"
  "now (launched w r st) = now st"
  "sim_returncode (launched w r st) = sim_returncode st"
  by (simp_all add: launched_def)

lemma state_run_setup [simp]:
  "now (run_setup r st) = now st"
  "sim_returncode (run_setup r st) = sim_returncode st"
  by (simp_all add: run_setup_def open_w_def Let_def)

lemma state_pre_launch [simp]:
  "now (pre_launch r st) = now st"
  "sim_returncode (pre_launch r st) = sim_returncode st"
  by (simp_all add: pre_launch_def)

lemma advance_zero [simp]: "advance [] 0 st = st"
  by (simp add: advance_def)

lemma advance_advance [simp]: "advance es2 k2 (advance es1 k1 st) = advance (es1 @ es2) (k1 + k2) st"
  by (simp add: advance_def)

lemma emit_advance: "emit e (advance es k st) = advance (es @ [e]) k st"
  by (simp add: advance_def emit_def)

lemma emits_advance: "emits es' (advance es k st) = advance (es @ es') k st"
  by (simp add: advance_def emits_def)

lemma sleep_advance: "sleep ms (advance es k st) = advance (es @ [Sleep ms]) (Suc k) st"
  by (simp add: advance_def sleep_def emit_def)

lemma poll_sleeps_Suc: "poll_sleeps (Suc k) = poll_sleeps k @ [Poll, Sleep 100]"
  unfolding poll_sleeps_def by (induction k) simp_all

lemma probe_rounds_Suc: "probe_rounds port (Suc k) = probe_rounds port k @ attempt port @ [Poll, Sleep 50]"
  unfolding probe_rounds_def by (induction k) simp_all

subsection \<open>Polling the process\<close>

lemma poll_alive:
  "sim_returncode st = None \<Longrightarrow> sim_poll w (now st) = None \<Longrightarrow> poll w st = (None, emit Poll st)"
  by (simp add: poll_def)

lemma poll_exited:
  "sim_returncode st = None \<Longrightarrow> sim_poll w (now st) = Some rc \<Longrightarrow> poll w st = (Some rc, reaped rc st)"
  by (simp add: poll_def reaped_def)

lemma poll_now: "poll w st = (x, st') \<Longrightarrow> now st' = now st"
  by (auto simp: poll_def split: option.splits)

subsection \<open>The loops of port discovery\<close>

lemma waitCfg_iterate:
  assumes "\<forall>j<k. cfg_file w (now st + j) = None \<and> sim_poll w (now st + j) = None"
    and "k \<le> 200" and "sim_returncode st = None"
  shows "waitCfg w 0 st = waitCfg w k (advance (poll_sleeps k) k st)"
  using assms
proof (induction k)
  case 0
  then show ?case by (simp add: poll_sleeps_def)
next
  case (Suc k)
  let ?stk = "advance (poll_sleeps k) k st"
  from Suc have "waitCfg w 0 st = waitCfg w k ?stk"
    by simp
  also from Suc.prems have "waitCfg w k ?stk = waitCfg w (Suc k) (sleep 100 (emit Poll ?stk))"
    by (subst waitCfg.simps) (simp add: Let_def poll_alive)
  also have "sleep 100 (emit Poll ?stk) = advance (poll_sleeps (Suc k)) (Suc k) st"
    by (simp add: emit_advance sleep_advance poll_sleeps_Suc)
  finally show ?case .
qed

lemma waitCfg_timeout:
  assumes "\<forall>j\<le>200. cfg_file w (now st + j) = None \<and> sim_poll w (now st + j) = None"
    and "sim_returncode st = None"
  shows "waitCfg w 0 st = (Inl (CfgNeverWritten (lit ''cosim.cfg'')), advance (poll_sleeps 201) 201 st)"
proof -
  let ?st = "advance (poll_sleeps 200) 200 st"
  from assms have "waitCfg w 0 st = waitCfg w 200 ?st"
    by (intro waitCfg_iterate) simp_all
  also from assms have "waitCfg w 200 ?st = (Inl (CfgNeverWritten (lit ''cosim.cfg'')), sleep 100 (emit Poll ?st))"
    by (subst waitCfg.simps) (simp add: Let_def portFileName_def poll_alive)
  also have "sleep 100 (emit Poll ?st) = advance (poll_sleeps 201) 201 st"
    using poll_sleeps_Suc [of 200] by (simp add: emit_advance sleep_advance)
  finally show ?thesis .
qed

lemma waitCfg_exited:
  assumes "\<forall>j<k. cfg_file w (now st + j) = None \<and> sim_poll w (now st + j) = None"
    and "k \<le> 200" and "sim_returncode st = None"
    and "cfg_file w (now st + k) = None" and "sim_poll w (now st + k) = Some rc"
  shows "waitCfg w 0 st = (Inr (), reaped rc (advance (poll_sleeps k) k st))"
proof -
  let ?st = "advance (poll_sleeps k) k st"
  from assms have "waitCfg w 0 st = waitCfg w k ?st"
    by (intro waitCfg_iterate) simp_all
  also from assms have "waitCfg w k ?st = (Inr (), reaped rc ?st)"
    by (subst waitCfg.simps) (simp add: Let_def poll_exited)
  finally show ?thesis .
qed

lemma waitCfg_present:
  assumes "\<forall>j<k. cfg_file w (now st + j) = None \<and> sim_poll w (now st + j) = None"
    and "k \<le> 200" and "sim_returncode st = None"
    and "cfg_file w (now st + k) = Some content"
  shows "waitCfg w 0 st = (Inr (), advance (poll_sleeps k) k st)"
proof -
  let ?st = "advance (poll_sleeps k) k st"
  from assms have "waitCfg w 0 st = waitCfg w k ?st"
    by (intro waitCfg_iterate) simp_all
  also from assms have "waitCfg w k ?st = (Inr (), ?st)"
    by (subst waitCfg.simps) simp
  finally show ?thesis .
qed

lemma waitCfg_now: "waitCfg w c st = (res, st') \<Longrightarrow> now st \<le> now st'"
proof (induction w c st rule: waitCfg.induct)
  case (1 w checkCount st)
  show ?case
  proof (cases "cfg_file w (now st) = None")
    case False
    with "1.prems" show ?thesis
      by (subst (asm) waitCfg.simps) simp
  next
    case absent: True
    obtain x st1 where p: "poll w st = (x, st1)"
      by (cases "poll w st")
    then have n1: "now st1 = now st"
      by (rule poll_now)
    show ?thesis
    proof (cases "x = None \<and> \<not> checkCount + 1 > 200")
      case True
      with absent p "1.prems" have "waitCfg w (checkCount + 1) (sleep 100 st1) = (res, st')"
        by (subst (asm) waitCfg.simps) (simp add: Let_def)
      moreover from p have "(x, st1) = poll w st"
        by simp
      ultimately have "now (sleep 100 st1) \<le> now st'"
        using "1.IH" [of x st1 "sleep 100 st1"] absent True by simp
      with n1 show ?thesis
        by simp
    next
      case False
      with absent p "1.prems" n1 show ?thesis
        by (subst (asm) waitCfg.simps) (auto simp: Let_def split: if_splits option.splits)
    qed
  qed
qed
subsection \<open>Digits and port lines\<close>

lemma spec_decimal_snoc:
  "spec_decimal dv (ds @ [c]) =
     10 * spec_decimal dv ds + (case decimal_value dv c of None \<Rightarrow> 0 | Some v \<Rightarrow> int v)"
proof -
  let ?v = "\<lambda>c. case decimal_value dv c of None \<Rightarrow> 0 | Some v \<Rightarrow> int v"
  have "(\<Sum>i\<leftarrow>[0..<length ds]. ?v ((ds @ [c]) ! i) * 10 ^ (length ds - i))
      = (\<Sum>i\<leftarrow>[0..<length ds]. 10 * (?v (ds ! i) * 10 ^ (length ds - 1 - i)))"
  proof (rule arg_cong [where f = sum_list], rule map_cong [OF refl])
    fix i
    assume "i \<in> set [0..<length ds]"
    then have i: "i < length ds"
      by simp
    then have "length ds - i = Suc (length ds - 1 - i)"
      by simp
    with i show "?v ((ds @ [c]) ! i) * 10 ^ (length ds - i) = 10 * (?v (ds ! i) * 10 ^ (length ds - 1 - i))"
      by (simp add: nth_append)
  qed
  then show ?thesis
    by (simp add: spec_decimal_def sum_list_const_mult)
qed

lemma int_of_digits_spec: "int_of_digits dv ds = spec_decimal dv ds"
proof (induction ds rule: rev_induct)
  case Nil
  show ?case by (simp add: int_of_digits_def spec_decimal_def)
next
  case (snoc c ds)
  then show ?case
    by (simp add: spec_decimal_snoc) (simp add: int_of_digits_def)
qed

lemma spec_decimal_nonneg: "0 \<le> spec_decimal dv ds"
  unfolding spec_decimal_def by (rule sum_list_nonneg) (auto split: option.splits)

lemma py_int_spec:
  "py_int dv lim ds = (if within_limit lim ds then Inr (spec_decimal dv ds) else Inl ValueError)"
  by (auto simp: py_int_def within_limit_def int_of_digits_spec)

lemma length_port_prefix: "length (lit ''port: '') = 6"
  by simp

lemma match_port_spec: "(match_port dv line = Some ds) = spec_port_line dv line ds"
proof
  assume m: "match_port dv line = Some ds"
  then have sw: "startswith line (lit ''port: '')"
    and ds: "ds = takeWhile (is_digit dv) (drop 6 line)" and ne: "ds \<noteq> []"
    by (auto simp: match_port_def Let_def split: if_splits)
  from sw have pre: "take 6 line = lit ''port: ''"
    unfolding startswith_def length_port_prefix .
  let ?rest = "dropWhile (is_digit dv) (drop 6 line)"
  have "line = take 6 line @ drop 6 line"
    by simp
  also have "drop 6 line = ds @ ?rest"
    by (simp add: ds)
  finally have "line = lit ''port: '' @ ds @ ?rest"
    by (simp add: pre)
  moreover have "case ?rest of [] \<Rightarrow> True | c # cs \<Rightarrow> decimal_value dv c = None"
  proof (cases ?rest)
    case (Cons c cs)
    then have "\<not> is_digit dv c"
      using hd_dropWhile [of "is_digit dv" "drop 6 line"] by simp
    with Cons show ?thesis
      by (simp add: is_digit_def)
  next
    case Nil
    show ?thesis
      by (simp only: Nil list.case)
  qed
  moreover have "list_all (\<lambda>c. decimal_value dv c \<noteq> None) ds"
    unfolding ds list_all_iff using set_takeWhileD [of _ "is_digit dv" "drop 6 line"]
    by (auto simp: is_digit_def)
  ultimately show "spec_port_line dv line ds"
    using ne unfolding spec_port_line_def by blast
next
  assume "spec_port_line dv line ds"
  then obtain rest where ne: "ds \<noteq> []" and all: "list_all (\<lambda>c. decimal_value dv c \<noteq> None) ds"
    and line: "line = lit ''port: '' @ ds @ rest"
    and rest: "case rest of [] \<Rightarrow> True | c # cs \<Rightarrow> decimal_value dv c = None"
    unfolding spec_port_line_def by blast
  from all have "takeWhile (is_digit dv) (ds @ rest) = ds @ takeWhile (is_digit dv) rest"
    by (intro takeWhile_append2) (simp add: list_all_iff is_digit_def)
  moreover from rest have "takeWhile (is_digit dv) rest = []"
    by (cases rest) (simp_all add: is_digit_def)
  moreover have "drop (length (lit ''port: '')) line = ds @ rest"
    by (simp add: line del: length_lit)
  then have "drop 6 line = ds @ rest"
    unfolding length_port_prefix .
  ultimately have "takeWhile (is_digit dv) (drop 6 line) = ds"
    by simp
  moreover have "startswith line (lit ''port: '')"
    by (simp add: line startswith_def del: length_lit)
  ultimately show "match_port dv line = Some ds"
    using ne by (simp add: match_port_def Let_def)
qed

lemma scan_port_spec:
  "scan_port dv lim ls p =
     (if list_all (within_limit lim) (digit_runs dv ls)
      then Inr (if digit_runs dv ls = [] then p else last (port_lines dv ls))
      else Inl ValueError)"
  by (induction ls arbitrary: p)
     (auto simp: digit_runs_def port_lines_def map_filter_simps py_int_spec split: option.splits)

lemma port_lines_nonneg: "p \<in> set (port_lines dv ls) \<Longrightarrow> 0 \<le> p"
  by (auto simp: port_lines_def spec_decimal_nonneg)

lemma port_lines_Nil [simp]: "(port_lines dv ls = []) = (digit_runs dv ls = [])"
  by (simp add: port_lines_def)

lemma last_port_nonneg: "digit_runs dv ls \<noteq> [] \<Longrightarrow> 0 \<le> last (port_lines dv ls)"
  by (rule port_lines_nonneg [of _ dv ls]) simp
lemma read_state:
  "(emits [OpenRead portFileName, CloseFile portFileName] st)\<lparr>now := now st + 1\<rparr>
     = advance [OpenRead (lit ''cosim.cfg''), CloseFile (lit ''cosim.cfg'')] 1 st"
  "(emits [OpenRead portFileName, CloseFile portFileName] st)\<lparr>now := Suc (now st)\<rparr>
     = advance [OpenRead (lit ''cosim.cfg''), CloseFile (lit ''cosim.cfg'')] (Suc 0) st"
  by (simp_all add: advance_def emits_def portFileName_def)

lemma readPort_found:
  assumes "cfg_file w (now st) = Some content"
    and "digit_runs (unicode_decimal w) (readlines content) \<noteq> []"
    and "list_all (within_limit (int_max_str_digits w)) (digit_runs (unicode_decimal w) (readlines content))"
    and "p < 0"
  shows "readPort w p st =
           Some (Inr (last (port_lines (unicode_decimal w) (readlines content))),
                 advance [OpenRead (lit ''cosim.cfg''), CloseFile (lit ''cosim.cfg'')] 1 st)"
proof -
  let ?port = "last (port_lines (unicode_decimal w) (readlines content))"
  let ?st1 = "advance [OpenRead (lit ''cosim.cfg''), CloseFile (lit ''cosim.cfg'')] 1 st"
  have "0 \<le> ?port"
    using assms(2) by (rule last_port_nonneg)
  then have "readPort w ?port ?st1 = Some (Inr ?port, ?st1)"
    by (subst readPort.simps) simp
  then show ?thesis
    using assms by (subst readPort.simps) (simp add: scan_port_spec read_state)
qed

lemma readPort_missing:
  assumes "cfg_file w (now st) = None" and "p < 0"
  shows "readPort w p st =
           Some (Inl (FileNotFoundError (lit ''cosim.cfg'')), emit (OpenRead (lit ''cosim.cfg'')) st)"
  using assms by (subst readPort.simps) (simp add: portFileName_def)

lemma readPort_too_long:
  assumes "cfg_file w (now st) = Some content"
    and "\<not> list_all (within_limit (int_max_str_digits w)) (digit_runs (unicode_decimal w) (readlines content))"
    and "p < 0"
  shows "readPort w p st = Some (Inl ValueError, emit (OpenRead (lit ''cosim.cfg'')) st)"
  using assms by (subst readPort.simps) (simp add: scan_port_spec portFileName_def)

lemma readPort_sound_aux:
  "readPort w p st = Some y \<Longrightarrow>
     (\<not> p < 0 \<longrightarrow> y = (Inr p, st)) \<and>
     (\<forall>port. fst y = Inr port \<longrightarrow> p < 0 \<longrightarrow>
        (\<exists>t content. now st \<le> t \<and> t < now (snd y) \<and> cfg_file w t = Some content \<and>
           digit_runs (unicode_decimal w) (readlines content) \<noteq> [] \<and>
           list_all (within_limit (int_max_str_digits w)) (digit_runs (unicode_decimal w) (readlines content)) \<and>
           port = last (port_lines (unicode_decimal w) (readlines content))))"
proof (induction rule: readPort.raw_induct [rotated 1, consumes 1, case_names step])
  case (step readPort' w p st y)
  note IH = step(1) and body = step(2)
  let ?dv = "unicode_decimal w" and ?lim = "int_max_str_digits w"
  show ?case
  proof (intro conjI allI impI)
    assume "\<not> p < 0"
    with body show "y = (Inr p, st)" by simp
  next
    fix port
    assume res: "fst y = Inr port" and neg: "p < 0"
    show "\<exists>t content. now st \<le> t \<and> t < now (snd y) \<and> cfg_file w t = Some content \<and>
           digit_runs ?dv (readlines content) \<noteq> [] \<and>
           list_all (within_limit ?lim) (digit_runs ?dv (readlines content)) \<and>
           port = last (port_lines ?dv (readlines content))"
    proof (cases "cfg_file w (now st)")
      case None
      with neg body res show ?thesis by auto
    next
      case (Some content)
      let ?st1 = "(emits [OpenRead portFileName, CloseFile portFileName] st)\<lparr>now := now st + 1\<rparr>"
      let ?runs = "digit_runs ?dv (readlines content)"
      show ?thesis
      proof (cases "list_all (within_limit ?lim) ?runs")
        case False
        with neg Some body res show ?thesis
          by (auto simp: scan_port_spec)
      next
        case ok: True
        let ?p1 = "if ?runs = [] then p else last (port_lines ?dv (readlines content))"
        from neg Some body ok have call: "readPort' w ?p1 ?st1 = Some y"
          by (simp add: scan_port_spec)
        show ?thesis
        proof (cases "?runs = []")
          case True
          with neg have "?p1 < 0"
            by simp
          with IH [OF call] res obtain t c where
            "now ?st1 \<le> t" "t < now (snd y)" "cfg_file w t = Some c"
            "digit_runs ?dv (readlines c) \<noteq> []"
            "list_all (within_limit ?lim) (digit_runs ?dv (readlines c))"
            "port = last (port_lines ?dv (readlines c))"
            by blast
          then show ?thesis
            by (intro exI [of _ t] exI [of _ c]) simp
        next
          case False
          then have "\<not> ?p1 < 0"
            using last_port_nonneg [of ?dv "readlines content"] by simp
          with IH [OF call] have y: "y = (Inr ?p1, ?st1)"
            by blast
          with res False ok Some show ?thesis
            by (intro exI [of _ "now st"] exI [of _ content]) simp
        qed
      qed
    qed
  qed
qed

lemma readPort_sound:
  assumes "readPort w p st = Some (Inr port, st')" and "p < 0"
  shows "\<exists>t content. now st \<le> t \<and> t < now st' \<and> cfg_file w t = Some content \<and>
           digit_runs (unicode_decimal w) (readlines content) \<noteq> [] \<and>
           list_all (within_limit (int_max_str_digits w)) (digit_runs (unicode_decimal w) (readlines content)) \<and>
           port = last (port_lines (unicode_decimal w) (readlines content))"
  using readPort_sound_aux [OF assms(1)] assms(2) by simp

subsection \<open>The loop of the readiness probe\<close>

lemma isPortOpen_in_range:
  "0 \<le> port \<Longrightarrow> port \<le> 65535 \<Longrightarrow>
     isPortOpen w port st = (Inr (connect_ex w (now st) port = 0), emits (attempt port) st)"
  by (simp add: isPortOpen_def Let_def attempt_def)

lemma isPortOpen_out_of_range:
  "port < 0 \<or> 65535 < port \<Longrightarrow> isPortOpen w port st = (Inl OverflowError, emit SockCreate st)"
  by (simp add: isPortOpen_def)

lemma waitRpc_overflow:
  "port < 0 \<or> 65535 < port \<Longrightarrow> waitRpc w port c st = (Inl OverflowError, emit SockCreate st)"
  by (subst waitRpc.simps) (simp add: isPortOpen_out_of_range)

lemma waitRpc_iterate:
  assumes "\<forall>j<k. connect_ex w (now st + j) port \<noteq> 0 \<and> sim_poll w (now st + j) = None"
    and "k \<le> 200" and "sim_returncode st = None" and "0 \<le> port" and "port \<le> 65535"
  shows "waitRpc w port 0 st = waitRpc w port k (advance (probe_rounds port k) k st)"
  using assms
proof (induction k)
  case 0
  then show ?case by (simp add: probe_rounds_def)
next
  case (Suc k)
  let ?stk = "advance (probe_rounds port k) k st"
  from Suc have "waitRpc w port 0 st = waitRpc w port k ?stk"
    by simp
  also from Suc.prems
  have "waitRpc w port k ?stk = waitRpc w port (Suc k) (sleep 50 (emit Poll (emits (attempt port) ?stk)))"
    by (subst waitRpc.simps) (simp add: isPortOpen_in_range poll_alive)
  also have "sleep 50 (emit Poll (emits (attempt port) ?stk)) = advance (probe_rounds port (Suc k)) (Suc k) st"
    by (simp add: emits_advance emit_advance sleep_advance probe_rounds_Suc)
  finally show ?case .
qed

lemma waitRpc_ready:
  assumes "\<forall>j<k. connect_ex w (now st + j) port \<noteq> 0 \<and> sim_poll w (now st + j) = None"
    and "k \<le> 200" and "sim_returncode st = None" and "0 \<le> port" and "port \<le> 65535"
    and "connect_ex w (now st + k) port = 0"
  shows "waitRpc w port 0 st = (Inr (), advance (probe_rounds port k @ attempt port) k st)"
proof -
  let ?st = "advance (probe_rounds port k) k st"
  from assms have "waitRpc w port 0 st = waitRpc w port k ?st"
    by (intro waitRpc_iterate) simp_all
  also from assms have "waitRpc w port k ?st = (Inr (), emits (attempt port) ?st)"
    by (subst waitRpc.simps) (simp add: isPortOpen_in_range)
  finally show ?thesis
    by (simp add: emits_advance)
qed

lemma waitRpc_exited:
  assumes "\<forall>j<k. connect_ex w (now st + j) port \<noteq> 0 \<and> sim_poll w (now st + j) = None"
    and "k < 200" and "sim_returncode st = None" and "0 \<le> port" and "port \<le> 65535"
    and "connect_ex w (now st + k) port \<noteq> 0" and "sim_poll w (now st + k) = Some rc"
  shows "waitRpc w port 0 st =
           (Inl SimulationExitedEarly, reaped rc (advance (probe_rounds port k @ attempt port) k st))"
proof -
  let ?st = "advance (probe_rounds port k) k st"
  from assms have "waitRpc w port 0 st = waitRpc w port k ?st"
    by (intro waitRpc_iterate) simp_all
  also from assms have "waitRpc w port k ?st = (Inl SimulationExitedEarly, reaped rc (emits (attempt port) ?st))"
    by (subst waitRpc.simps) (simp add: isPortOpen_in_range poll_exited)
  finally show ?thesis
    by (simp add: emits_advance)
qed

lemma waitRpc_timeout:
  assumes "\<forall>j\<le>200. connect_ex w (now st + j) port \<noteq> 0"
    and "\<forall>j<200. sim_poll w (now st + j) = None"
    and "sim_returncode st = None" and "0 \<le> port" and "port \<le> 65535"
  shows "waitRpc w port 0 st =
           (Inl (RpcPortNeverOpened port), advance (probe_rounds port 200 @ attempt port) 200 st)"
proof -
  let ?st = "advance (probe_rounds port 200) 200 st"
  from assms have "waitRpc w port 0 st = waitRpc w port 200 ?st"
    by (intro waitRpc_iterate) simp_all
  also from assms have "waitRpc w port 200 ?st = (Inl (RpcPortNeverOpened port), emits (attempt port) ?st)"
    by (subst waitRpc.simps) (simp add: isPortOpen_in_range)
  finally show ?thesis
    by (simp add: emits_advance)
qed
subsection \<open>Port discovery as a whole\<close>

lemma portDiscovery_timeout:
  assumes "\<forall>j\<le>200. cfg_file w (now st + j) = None \<and> sim_poll w (now st + j) = None"
    and "sim_returncode st = None"
  shows "portDiscovery w st =
           Some (Inl (CfgNeverWritten (lit ''cosim.cfg'')), advance (poll_sleeps 201) 201 st)"
  using assms by (simp add: portDiscovery_def waitCfg_timeout)

lemma portDiscovery_found:
  assumes "\<forall>j<k. cfg_file w (now st + j) = None \<and> sim_poll w (now st + j) = None"
    and "k \<le> 200" and "sim_returncode st = None"
    and "cfg_file w (now st + k) = Some content"
    and "digit_runs (unicode_decimal w) (readlines content) \<noteq> []"
    and "list_all (within_limit (int_max_str_digits w)) (digit_runs (unicode_decimal w) (readlines content))"
  shows "portDiscovery w st =
           Some (Inr (last (port_lines (unicode_decimal w) (readlines content))),
                 advance (poll_sleeps k @ [OpenRead (lit ''cosim.cfg''), CloseFile (lit ''cosim.cfg'')]) (k + 1) st)"
proof -
  from assms have "waitCfg w 0 st = (Inr (), advance (poll_sleeps k) k st)"
    by (intro waitCfg_present [where content = content]) simp_all
  moreover from assms have "readPort w (- 1) (advance (poll_sleeps k) k st) =
      Some (Inr (last (port_lines (unicode_decimal w) (readlines content))),
            advance [OpenRead (lit ''cosim.cfg''), CloseFile (lit ''cosim.cfg'')] 1 (advance (poll_sleeps k) k st))"
    by (intro readPort_found) simp_all
  ultimately show ?thesis
    by (simp add: portDiscovery_def)
qed

lemma portDiscovery_too_long:
  assumes "\<forall>j<k. cfg_file w (now st + j) = None \<and> sim_poll w (now st + j) = None"
    and "k \<le> 200" and "sim_returncode st = None"
    and "cfg_file w (now st + k) = Some content"
    and "\<not> list_all (within_limit (int_max_str_digits w)) (digit_runs (unicode_decimal w) (readlines content))"
  shows "portDiscovery w st =
           Some (Inl ValueError, advance (poll_sleeps k @ [OpenRead (lit ''cosim.cfg'')]) k st)"
proof -
  from assms have "waitCfg w 0 st = (Inr (), advance (poll_sleeps k) k st)"
    by (intro waitCfg_present [where content = content]) simp_all
  moreover from assms have "readPort w (- 1) (advance (poll_sleeps k) k st) =
      Some (Inl ValueError, emit (OpenRead (lit ''cosim.cfg'')) (advance (poll_sleeps k) k st))"
    by (intro readPort_too_long [where content = content]) simp_all
  ultimately show ?thesis
    by (simp add: portDiscovery_def emit_advance)
qed

lemma portDiscovery_exited:
  assumes "\<forall>j<k. cfg_file w (now st + j) = None \<and> sim_poll w (now st + j) = None"
    and "k \<le> 200" and "sim_returncode st = None"
    and "cfg_file w (now st + k) = None" and "sim_poll w (now st + k) = Some rc"
  shows "portDiscovery w st =
           Some (Inl (FileNotFoundError (lit ''cosim.cfg'')),
                 emit (OpenRead (lit ''cosim.cfg'')) (reaped rc (advance (poll_sleeps k) k st)))"
proof -
  from assms have "waitCfg w 0 st = (Inr (), reaped rc (advance (poll_sleeps k) k st))"
    by (intro waitCfg_exited) simp_all
  moreover from assms have "readPort w (- 1) (reaped rc (advance (poll_sleeps k) k st)) =
      Some (Inl (FileNotFoundError (lit ''cosim.cfg'')),
            emit (OpenRead (lit ''cosim.cfg'')) (reaped rc (advance (poll_sleeps k) k st)))"
    by (intro readPort_missing) simp_all
  ultimately show ?thesis
    by (simp add: portDiscovery_def)
qed

lemma portDiscovery_sound:
  assumes "portDiscovery w st = Some (Inr port, st')"
  shows "\<exists>t content. now st \<le> t \<and> t < now st' \<and> cfg_file w t = Some content \<and>
           digit_runs (unicode_decimal w) (readlines content) \<noteq> [] \<and>
           list_all (within_limit (int_max_str_digits w)) (digit_runs (unicode_decimal w) (readlines content)) \<and>
           port = last (port_lines (unicode_decimal w) (readlines content))"
proof -
  obtain a st1 where wc: "waitCfg w 0 st = (a, st1)"
    by (cases "waitCfg w 0 st")
  with assms have rp: "readPort w (- 1) st1 = Some (Inr port, st')"
    by (cases a) (simp_all add: portDiscovery_def)
  from readPort_sound [OF rp] obtain t content where
    "now st1 \<le> t" "t < now st'" "cfg_file w t = Some content"
    "digit_runs (unicode_decimal w) (readlines content) \<noteq> []"
    "list_all (within_limit (int_max_str_digits w)) (digit_runs (unicode_decimal w) (readlines content))"
    "port = last (port_lines (unicode_decimal w) (readlines content))"
    by auto
  moreover from wc have "now st \<le> now st1"
    by (rule waitCfg_now)
  ultimately show ?thesis
    by (intro exI [of _ t] exI [of _ content]) simp
qed

subsection \<open>Reading lines\<close>

lemma universal_newlines_id: "CR \<notin> set s \<Longrightarrow> universal_newlines s = s"
  by (induction s rule: universal_newlines.induct) auto

lemma split_lines_single: "NL \<notin> set xs \<Longrightarrow> split_lines (xs @ [NL]) = [xs @ [NL]]"
  by (induction xs) auto

lemma CR_neq_NL [simp]: "CR \<noteq> NL" "NL \<noteq> CR"
  by (simp_all add: CR_def NL_def)

lemma readlines_single: "CR \<notin> set xs \<Longrightarrow> NL \<notin> set xs \<Longrightarrow> readlines (xs @ [NL]) = [xs @ [NL]]"
  by (simp add: readlines_def universal_newlines_id split_lines_single)

lemma universal_newlines_Nil [simp]: "(universal_newlines s = []) = (s = [])"
  by (induction s rule: universal_newlines.induct) auto

lemma ascii_digit_value: "48 \<le> c \<Longrightarrow> c \<le> 57 \<Longrightarrow> decimal_value dv c = Some (c - 48)"
  by (simp add: decimal_value_def)

lemma demo_cfg_lines:
  "readlines (lit ''garbage'' @ [NL] @ lit ''port: 4711'' @ [NL]) = [lit ''garbage'' @ [NL], lit ''port: 4711'' @ [NL]]"
  by (simp add: readlines_def lit_def NL_def CR_def)

lemma demo_cfg_runs:
  "digit_runs dv (readlines (lit ''garbage'' @ [NL] @ lit ''port: 4711'' @ [NL])) = [lit ''4711'']"
  unfolding demo_cfg_lines
  by (simp add: digit_runs_def map_filter_simps match_port_def startswith_def
      is_digit_def decimal_value_def lit_def NL_def Let_def)

lemma demo_cfg_ports:
  "port_lines dv (readlines (lit ''garbage'' @ [NL] @ lit ''port: 4711'' @ [NL])) = [4711]"
  unfolding port_lines_def demo_cfg_runs
  by (simp add: int_of_digits_spec [symmetric] int_of_digits_def decimal_value_def lit_def)
subsection \<open>The try block and the finally block\<close>

lemma list_all_upt: "list_all P [0..<k] = (\<forall>j<k. P j)"
  by (auto simp: list_all_iff)

lemma run_after_launch_cases:
  assumes "run_after_launch w r st = Some (res, st')"
  obtains (discovery) e where "portDiscovery w st = Some (Inl e, st')" "res = Inl e"
  | (probe) port st1 e where "portDiscovery w st = Some (Inr port, st1)"
      "readinessProbe w port st1 = (Inl e, st')" "res = Inl e"
  | (test) port st1 st2 where "portDiscovery w st = Some (Inr port, st1)"
      "readinessProbe w port st1 = (Inr (), st2)"
      "test_phase w r port (if \<not> exec r then writeScript w r port st2 else st2) = (res, st')"
  using assms
  by (auto simp: run_after_launch_def split: option.splits sum.splits prod.splits)

lemma test_phase_result:
  assumes "test_phase w r port st = (Inr t, st')"
  shows "if server_only r then t = None else (\<exists>rc. t = Some rc \<and> test_result w = Inr rc)"
  using assms
  by (auto simp: test_phase_def Let_def split: if_splits option.splits sum.splits)

lemma test_phase_script:
  assumes "test_phase w r port st = (res, st')"
  shows "fs st' (lit ''script.py'') = fs st (lit ''script.py'')"
  using assms
  by (auto simp: test_phase_def Let_def split: if_splits option.splits sum.splits)

lemma run_after_launch_result:
  assumes "run_after_launch w r st = Some (Inr t, st')"
  shows "if server_only r then t = None else (\<exists>rc. t = Some rc \<and> test_result w = Inr rc)"
  using assms
proof (cases rule: run_after_launch_cases)
  case (test port st1 st2)
  from test_phase_result [OF test(3)] show ?thesis .
qed simp_all

lemma run_after_launch_script:
  assumes "run_after_launch w r st = Some (Inr t, st')" and "\<not> exec r"
  shows "\<exists>port. fs st' (lit ''script.py'') = Some (script_text w r port)"
  using assms(1)
proof (cases rule: run_after_launch_cases)
  case (test port st1 st2)
  from test_phase_script [OF test(3)] assms(2)
  have "fs st' (lit ''script.py'') = Some (script_text w r port)"
    by simp
  then show ?thesis ..
qed simp_all

lemma run_after_launch_reaches:
  assumes "\<forall>j<k1. cfg_file w (now st + j) = None \<and> sim_poll w (now st + j) = None"
    and "k1 \<le> 200" and "sim_returncode st = None"
    and "cfg_file w (now st + k1) = Some content"
    and "digit_runs (unicode_decimal w) (readlines content) \<noteq> []"
    and "list_all (within_limit (int_max_str_digits w)) (digit_runs (unicode_decimal w) (readlines content))"
    and "port = last (port_lines (unicode_decimal w) (readlines content))"
    and "port \<le> 65535"
    and "\<forall>j<k2. connect_ex w (now st + k1 + 1 + j) port \<noteq> 0 \<and> sim_poll w (now st + k1 + 1 + j) = None"
    and "k2 \<le> 200"
    and "connect_ex w (now st + k1 + 1 + k2) port = 0"
    and "st2 = advance (poll_sleeps k1 @ [OpenRead (lit ''cosim.cfg''), CloseFile (lit ''cosim.cfg'')]
                @ probe_rounds port k2 @ attempt port) (k1 + 1 + k2) st"
  shows "run_after_launch w r st =
           Some (test_phase w r port (if \<not> exec r then writeScript w r port st2 else st2))"
proof -
  let ?st1 = "advance (poll_sleeps k1 @ [OpenRead (lit ''cosim.cfg''), CloseFile (lit ''cosim.cfg'')]) (k1 + 1) st"
  from assms(1-6) have pd: "portDiscovery w st =
      Some (Inr (last (port_lines (unicode_decimal w) (readlines content))), ?st1)"
    by (rule portDiscovery_found)
  have nonneg: "0 \<le> port"
    unfolding assms(7) using assms(5) by (rule last_port_nonneg)
  from assms(9) have "\<forall>j<k2. connect_ex w (now ?st1 + j) port \<noteq> 0 \<and> sim_poll w (now ?st1 + j) = None"
    by (simp add: add.assoc)
  moreover from assms(11) have "connect_ex w (now ?st1 + k2) port = 0"
    by (simp add: add.assoc)
  ultimately have "waitRpc w port 0 ?st1 = (Inr (), advance (probe_rounds port k2 @ attempt port) k2 ?st1)"
    using assms(3,8,10) nonneg by (intro waitRpc_ready) simp_all
  then have rp: "readinessProbe w port ?st1 = (Inr (), st2)"
    by (simp add: readinessProbe_def assms(12) add.assoc)
  from pd rp show ?thesis
    by (simp add: run_after_launch_def assms(7) split: prod.splits)
qed

lemma reaches_testD:
  assumes "reaches_test w st k1 k2 port"
  obtains content where "popen_error w = None" "sim_returncode st = None" "k1 \<le> 200" "k2 \<le> 200"
    "port \<le> 65535"
    "\<forall>j<k1. cfg_file w (now st + j) = None \<and> sim_poll w (now st + j) = None"
    "cfg_file w (now st + k1) = Some content"
    "digit_runs (unicode_decimal w) (readlines content) \<noteq> []"
    "list_all (within_limit (int_max_str_digits w)) (digit_runs (unicode_decimal w) (readlines content))"
    "port = last (port_lines (unicode_decimal w) (readlines content))"
    "\<forall>j<k2. connect_ex w (now st + k1 + 1 + j) port \<noteq> 0 \<and> sim_poll w (now st + k1 + 1 + j) = None"
    "connect_ex w (now st + k1 + 1 + k2) port = 0"
  using assms unfolding reaches_test_def list_all_upt
  by (cases "cfg_file w (now st + k1)") auto

lemma run_reaches:
  assumes "reaches_test w st k1 k2 port"
    and "st2 = ready_state w r k1 k2 port st"
    and "test_phase w r port (if \<not> exec r then writeScript w r port st2 else st2) = (res, st3)"
  shows "run w r st = Some (run_finally w True res st3)"
proof -
  let ?L = "launched w r (pre_launch r st)"
  from assms(1) obtain content where h: "popen_error w = None" "sim_returncode st = None" "k1 \<le> 200" "k2 \<le> 200"
    "port \<le> 65535"
    "\<forall>j<k1. cfg_file w (now st + j) = None \<and> sim_poll w (now st + j) = None"
    "cfg_file w (now st + k1) = Some content"
    "digit_runs (unicode_decimal w) (readlines content) \<noteq> []"
    "list_all (within_limit (int_max_str_digits w)) (digit_runs (unicode_decimal w) (readlines content))"
    "port = last (port_lines (unicode_decimal w) (readlines content))"
    "\<forall>j<k2. connect_ex w (now st + k1 + 1 + j) port \<noteq> 0 \<and> sim_poll w (now st + k1 + 1 + j) = None"
    "connect_ex w (now st + k1 + 1 + k2) port = 0"
    by (rule reaches_testD)
  have "run_after_launch w r ?L =
      Some (test_phase w r port (if \<not> exec r then writeScript w r port st2 else st2))"
    using h(6,3,2,7,8,9,10,5,11,4,12) assms(2)
    by (intro run_after_launch_reaches [where content = content and ?k1.0 = k1 and ?k2.0 = k2])
       (simp_all add: ready_state_def)
  with assms(3) h(1) show ?thesis
    by (simp add: run_def pre_launch_def Let_def)
qed

lemma readLogs_err:
  assumes "readLogs st = Inr (err, logs)"
  shows "\<exists>se te. fs st (lit ''sim_stderr.log'') = Some se \<and> fs st (lit ''test_stderr.log'') = Some te \<and>
           err = (se \<noteq> [] \<or> te \<noteq> [])"
  using assms
  by (auto simp: readLogs_def read_text_def split: option.splits)

lemma read_text_emit [simp]: "read_text (emit e st) name = read_text st name"
  by (simp add: read_text_def)

lemma readLogs_emit [simp]: "readLogs (emit e st) = readLogs st"
  by (simp add: readLogs_def split: sum.splits)

lemma report_verdict:
  assumes "report (Inr t) st = (res', st')"
  shows "(\<exists>e. res' = Inl e \<and> readLogs st = Inl e) \<or>
         (\<exists>se te. fs st (lit ''sim_stderr.log'') = Some se \<and> fs st (lit ''test_stderr.log'') = Some te \<and>
            res' = Inr (if t = Some 0 \<and> se = [] \<and> te = [] then 0 else 1))"
proof (cases "readLogs st")
  case (Inl e)
  with assms show ?thesis
    by (simp add: report_def Let_def)
next
  case (Inr p)
  obtain err logs where p: "p = (err, logs)"
    by (cases p)
  with Inr have rl: "readLogs st = Inr (err, logs)"
    by simp
  from readLogs_err [OF rl] obtain se te where
    f: "fs st (lit ''sim_stderr.log'') = Some se" "fs st (lit ''test_stderr.log'') = Some te"
    "err = (se \<noteq> [] \<or> te \<noteq> [])"
    by blast
  from assms rl f(3) have "res' = Inr (if t = Some 0 \<and> se = [] \<and> te = [] then 0 else 1)"
    by (auto simp: report_def Let_def split: option.splits if_splits)
  with f show ?thesis
    by blast
qed

lemma report_raises: "report (Inl e) st = (res', st') \<Longrightarrow> \<exists>e'. res' = Inl e'"
  by (auto simp: report_def Let_def split: sum.splits prod.splits)

lemma run_finally_cases:
  assumes "run_finally w b res st = (res', st')"
  obtains (gone) "b" "sim_returncode st \<noteq> None" "res' = Inl ProcessLookupError" "st' = emit Getpgid st"
  | (stopped) "b" "sim_returncode st = None"
      "report res (emits (Getpgid # teardown_events w) st) = (res', st')"
  | (not_started) "\<not> b" "report res st = (res', st')"
  using assms
  by (auto simp: run_finally_def teardown_def split: if_splits)

lemma run_cases:
  assumes "run w r st = Some (res, st')"
  obtains (not_launched) e where "popen_error w = Some e"
      "run_finally w False (Inl e) (pre_launch r st) = (res, st')"
  | (was_launched) res1 st1 where "popen_error w = None"
      "run_after_launch w r (launched w r (pre_launch r st)) = Some (res1, st1)"
      "run_finally w True res1 st1 = (res, st')"
  using assms
  by (auto simp: run_def pre_launch_def Let_def split: option.splits prod.splits)

lemma run_returns_report:
  assumes "run w r st = Some (Inr v, st')"
  shows "\<exists>t st1 st2. run_after_launch w r (launched w r (pre_launch r st)) = Some (Inr t, st1) \<and>
           sim_returncode st1 = None \<and> st2 = emits (Getpgid # teardown_events w) st1 \<and>
           report (Inr t) st2 = (Inr v, st')"
  using assms
proof (cases rule: run_cases)
  case (not_launched e)
  from not_launched(2) show ?thesis
    by (cases rule: run_finally_cases) (auto dest: report_raises)
next
  case (was_launched res1 st1)
  from was_launched(3) show ?thesis
  proof (cases rule: run_finally_cases)
    case stopped
    show ?thesis
    proof (cases res1)
      case (Inl e)
      with stopped(3) show ?thesis
        by (auto dest: report_raises)
    next
      case (Inr t)
      with was_launched(2) stopped show ?thesis
        by blast
    qed
  qed simp_all
qed
subsection \<open>Some configuration files\<close>

lemma digit_run_line:
  assumes "ds \<noteq> []" and "list_all (\<lambda>c. decimal_value dv c \<noteq> None) ds"
  shows "match_port dv (lit ''port: '' @ ds @ [NL]) = Some ds"
  unfolding match_port_spec spec_port_line_def using assms
  by (simp add: decimal_value_def NL_def)

lemma ones_are_digits: "list_all (\<lambda>c. decimal_value dv c \<noteq> None) (replicate n 49)"
  by (simp add: list_all_iff decimal_value_def)

lemma ones_line: "n \<noteq> 0 \<Longrightarrow> match_port dv (lit ''port: '' @ replicate n 49 @ [NL]) = Some (replicate n 49)"
  by (rule digit_run_line [OF _ ones_are_digits]) simp

lemma long_cfg_lines:
  "readlines (lit ''port: '' @ replicate 4301 49 @ [NL]) = [lit ''port: '' @ replicate 4301 49 @ [NL]]"
  using readlines_single [of "lit ''port: '' @ replicate 4301 49"]
  by (simp add: lit_def CR_def NL_def)

lemma long_cfg_runs:
  "digit_runs dv (readlines (lit ''port: '' @ replicate 4301 49 @ [NL])) = [replicate 4301 49]"
  unfolding long_cfg_lines
  by (simp add: digit_runs_def map_filter_simps ones_line)
subsection \<open>The value of a run\<close>

lemma run_value:
  assumes "run w r st = Some (Inr v, st')"
  shows "v = 0 \<or> v = 1"
proof -
  from run_returns_report [OF assms] obtain t st2 where "report (Inr t) st2 = (Inr v, st')"
    by blast
  from report_verdict [OF this] show ?thesis
    by (auto split: if_splits)
qed

lemma main_tail_cases:
  assumes "main_tail w r st = Some (res, st')"
  shows "(\<exists>e. res = Inl e) \<or>
         (compile_error w = None \<and> compile_returncode w \<noteq> 0 \<and> res = Inr (Some (compile_returncode w))) \<or>
         (compile_error w = None \<and> compile_returncode w = 0 \<and>
            (\<exists>st1 v. run w r st1 = Some (Inr v, st') \<and> res = Inr (Some v) \<and> (v = 0 \<or> v = 1)))"
proof (cases "compile_error w")
  case (Some e)
  with assms show ?thesis
    by (auto simp: main_tail_def compile_def Let_def)
next
  case None
  show ?thesis
  proof (cases "compile_returncode w = 0")
    case False
    with None assms show ?thesis
      by (auto simp: main_tail_def compile_def Let_def)
  next
    case True
    let ?st1 = "emit (PrintElapsed (lit ''[INFO] Compile time: ''))
        (emits [Print (lit ''[INFO] Compile command: '' @ join [SPACE] (compile_cmd r)), RunCompile (compile_cmd r)] st)"
    from None True have c: "compile w r st = (Inr 0, ?st1)"
      by (simp add: compile_def Let_def)
    show ?thesis
    proof (cases res)
      case (Inl e)
      then show ?thesis by simp
    next
      case (Inr x)
      with assms c have "\<exists>v. run w r ?st1 = Some (Inr v, st') \<and> res = Inr (Some v)"
        by (auto simp: main_tail_def split: option.splits sum.splits prod.splits)
      then obtain v where v: "run w r ?st1 = Some (Inr v, st')" "res = Inr (Some v)"
        by blast
      from run_value [OF v(1)] v None True show ?thesis
        by blast
    qed
  qed
qed
subsection \<open>Runs that reach the test phase\<close>

lemma report_files:
  assumes "fs st (lit ''sim_stdout.log'') = Some so" and "fs st (lit ''sim_stderr.log'') = Some se"
    and "fs st (lit ''test_stdout.log'') = Some to" and "fs st (lit ''test_stderr.log'') = Some te"
  shows "\<exists>st'. report (Inr t) st = (Inr (if t = Some 0 \<and> se = [] \<and> te = [] then 0 else 1), st') \<and>
               fs st' = fs st"
  using assms
  by (auto simp: report_def readLogs_def read_text_def Let_def split: option.splits)

lemma fs_run_setup:
  "\<not> interactive r \<Longrightarrow> fs (run_setup r st) (lit ''test_stdout.log'') = Some []"
  "\<not> interactive r \<Longrightarrow> fs (run_setup r st) (lit ''test_stderr.log'') = Some []"
  by (simp_all add: run_setup_def open_w_def Let_def portFileName_def)

lemma fs_pre_launch [simp]: "fs (pre_launch r st) = fs (run_setup r st)"
  by (simp add: pre_launch_def)

lemma fs_ready_state [simp]:
  "fs (ready_state w r k1 k2 port st) =
     (fs (run_setup r st))(lit ''sim_stdout.log'' \<mapsto> sim_stdout w, lit ''sim_stderr.log'' \<mapsto> sim_stderr w)"
  by (simp add: ready_state_def)

lemma sim_returncode_ready_state [simp]:
  "sim_returncode (ready_state w r k1 k2 port st) = sim_returncode st"
  by (simp add: ready_state_def)

lemma run_test_mode:
  assumes "reaches_test w st k1 k2 port" and "\<not> server_only r" and "\<not> exec r" and "\<not> interactive r"
    and "environ w (lit ''PYTHONPATH'') = Some pp" and "test_result w = Inr rc"
  shows "\<exists>st'. run w r st =
             Some (Inr (if rc = 0 \<and> sim_stderr w = [] \<and> test_stderr w = [] then 0 else 1), st') \<and>
           fs st' (lit ''script.py'') = Some (script_text w r port) \<and>
           fs st' (lit ''test_stdout.log'') = Some (test_stdout w)"
proof -
  let ?st2 = "ready_state w r k1 k2 port st"
  let ?st2' = "writeScript w r port ?st2"
  let ?st2'' = "emits [Print (lit ''[INFO] Test run command: '' @ join [SPACE] (test_cmd w r port)),
                       RunTest (test_cmd w r port)] ?st2'"
  let ?st3 = "(emits [CloseFile (lit ''test_stdout.log''), CloseFile (lit ''test_stderr.log'')] ?st2'')
                \<lparr>fs := (fs ?st2'')(lit ''test_stdout.log'' \<mapsto> test_stdout w,
                                      lit ''test_stderr.log'' \<mapsto> test_stderr w)\<rparr>"
  let ?st4 = "emits (Getpgid # teardown_events w) ?st3"
  from assms(1) have alive: "sim_returncode st = None"
    by (rule reaches_testD)
  from assms(2-6) have tp: "test_phase w r port (if \<not> exec r then ?st2' else ?st2) = (Inr (Some rc), ?st3)"
    by (simp add: test_phase_def Let_def)
  have "run w r st = Some (run_finally w True (Inr (Some rc)) ?st3)"
    using assms(1) refl tp by (rule run_reaches)
  moreover have "run_finally w True (Inr (Some rc)) ?st3 = report (Inr (Some rc)) ?st4"
    using alive by (simp add: run_finally_def teardown_def)
  moreover have "\<exists>st'. report (Inr (Some rc)) ?st4 =
      (Inr (if Some rc = Some 0 \<and> sim_stderr w = [] \<and> test_stderr w = [] then 0 else 1), st') \<and>
      fs st' = fs ?st4"
    by (rule report_files [where so = "sim_stdout w" and to = "test_stdout w"]) simp_all
  ultimately show ?thesis
    by auto
qed
lemma run_server_mode:
  assumes "reaches_test w st k1 k2 port" and "server_only r" and "\<not> interactive r"
    and "input_error w = None"
  shows "\<exists>st'. run w r st = Some (Inr 1, st')"
proof -
  let ?st2 = "ready_state w r k1 k2 port st"
  let ?st2' = "if \<not> exec r then writeScript w r port ?st2 else ?st2"
  let ?st3 = "emit (Input (lit ''Running in server-only mode on port '' @ str_int port
                             @ lit '' - Press anything to kill the server...'')) ?st2'"
  let ?st4 = "emits (Getpgid # teardown_events w) ?st3"
  from assms(1) have alive: "sim_returncode st = None"
    by (rule reaches_testD)
  from assms(2,4) have tp: "test_phase w r port ?st2' = (Inr None, ?st3)"
    by (simp add: test_phase_def Let_def)
  have "run w r st = Some (run_finally w True (Inr None) ?st3)"
    using assms(1) refl tp by (rule run_reaches)
  moreover have "run_finally w True (Inr None) ?st3 = report (Inr None) ?st4"
    using alive by (simp add: run_finally_def teardown_def)
  moreover have "\<exists>st'. report (Inr None) ?st4 =
      (Inr (if None = Some (0::int) \<and> sim_stderr w = [] \<and> ([]::ustring) = [] then 0 else 1), st') \<and>
      fs st' = fs ?st4"
    using assms(3)
    by (intro report_files [where so = "sim_stdout w" and to = "[]"]) (simp_all add: fs_run_setup)
  ultimately show ?thesis
    by auto
qed

lemma demo_like_reaches:
  assumes "cfg_file w = cfg_file demo_world" and "sim_poll w = sim_poll demo_world"
    and "connect_ex w = connect_ex demo_world" and "unicode_decimal w = unicode_decimal demo_world"
    and "int_max_str_digits w = int_max_str_digits demo_world" and "popen_error w = None"
  shows "reaches_test w (initial w) 2 1 4711"
proof -
  let ?cfg = "lit ''garbage'' @ [NL] @ lit ''port: 4711'' @ [NL]"
  have cfg: "cfg_file w (now (initial w) + 2) = Some ?cfg"
    by (simp add: assms(1) demo_world_def initial_def)
  have content: "digit_runs (unicode_decimal w) (readlines ?cfg) \<noteq> [] \<and>
      list_all (within_limit (int_max_str_digits w)) (digit_runs (unicode_decimal w) (readlines ?cfg)) \<and>
      4711 = last (port_lines (unicode_decimal w) (readlines ?cfg))"
    unfolding demo_cfg_runs demo_cfg_ports
    by (simp add: within_limit_def assms(5) demo_world_def)
  have before: "\<forall>j<2. cfg_file w (now (initial w) + j) = None \<and> sim_poll w (now (initial w) + j) = None"
    by (simp add: assms(1,2) demo_world_def initial_def)
  have probe: "\<forall>j<1. connect_ex w (now (initial w) + 2 + 1 + j) 4711 \<noteq> 0 \<and>
      sim_poll w (now (initial w) + 2 + 1 + j) = None"
    "connect_ex w (now (initial w) + 2 + 1 + 1) 4711 = 0"
    by (simp_all add: assms(2,3) demo_world_def initial_def)
  show ?thesis
    unfolding reaches_test_def list_all_upt cfg option.case
    using content before probe assms(6)
    by (simp add: initial_def)
qed

lemma demo_worlds_reach:
  "reaches_test demo_world (initial demo_world) 2 1 4711"
  "reaches_test stderr_world (initial stderr_world) 2 1 4711"
  "reaches_test failing_test_world (initial failing_test_world) 2 1 4711"
proof -
  show "reaches_test demo_world (initial demo_world) 2 1 4711"
    by (rule demo_like_reaches) (simp_all add: demo_world_def)
  show "reaches_test stderr_world (initial stderr_world) 2 1 4711"
    by (rule demo_like_reaches) (simp_all add: stderr_world_def demo_world_def)
  show "reaches_test failing_test_world (initial failing_test_world) 2 1 4711"
    by (rule demo_like_reaches) (simp_all add: failing_test_world_def demo_world_def)
qed
section \<open>The claims\<close>

text \<open>
  C2. The constructor raises for every combination of arguments, because its guard
  compares two empty string literals. So every invocation of \<open>__main__\<close> whose
  arguments parse ends with that exception, and neither the compiler nor the
  simulation has been started.
\<close>

theorem init_always_raises:
  "init w st a = Inl DpiLibraryDisabled \<and>
   (1 < length argv \<longrightarrow> parse_args (tl argv) = Inr c \<longrightarrow>
      (\<exists>st'. main parse_args w argv = Some (Inl DpiLibraryDisabled, st') \<and>
             \<not> list_ex is_compile (trace st') \<and> \<not> list_ex is_launch (trace st')))"
  by (auto simp: init_def main_def Let_def initial_def)

theorem init_always_raises_witness:
  "1 < length [lit ''esi-cosim-runner.py'', lit ''t.sv''] \<and>
   (\<exists>st'. main (\<lambda>xs. Inr demo_cli) demo_world [lit ''esi-cosim-runner.py'', lit ''t.sv'']
            = Some (Inl DpiLibraryDisabled, st') \<and>
          \<not> list_ex is_compile (trace st') \<and> \<not> list_ex is_launch (trace st'))"
  using init_always_raises [of demo_world _ _ "[lit ''esi-cosim-runner.py'', lit ''t.sv'']" "\<lambda>xs. Inr demo_cli" demo_cli]
  by simp

text \<open>
  C7. When the simulation exits before it has written the configuration file, the
  waiting loop of port discovery ends at once, as the claim says; but the code raises
  nothing there. It goes on to open the file that is not there, and the exception of
  port discovery is the \<open>FileNotFoundError\<close> of \<open>open("cosim.cfg")\<close>, not an error
  that says the process has exited (the readiness probe, a few lines below, raises
  "Simulation exited early" on the same condition). Here is port discovery in a world
  whose simulation exits with code 1 at the third poll, never having written the file:
  two rounds of poll and sleep, the poll that sees the exit, then the failing open.
\<close>

theorem early_exit_raises_file_not_found:
  "portDiscovery early_exit_world (initial early_exit_world) =
     Some (Inl (FileNotFoundError (lit ''cosim.cfg'')),
           emit (OpenRead (lit ''cosim.cfg''))
             (reaped 1 (advance (poll_sleeps 2) 2 (initial early_exit_world)))) \<and>
   map_option fst (portDiscovery early_exit_world (initial early_exit_world))
     \<noteq> Some (Inl SimulationExitedEarly)"
proof -
  have "portDiscovery early_exit_world (initial early_exit_world) =
     Some (Inl (FileNotFoundError (lit ''cosim.cfg'')),
           emit (OpenRead (lit ''cosim.cfg''))
             (reaped 1 (advance (poll_sleeps 2) 2 (initial early_exit_world))))"
    by (rule portDiscovery_exited) (simp_all add: early_exit_world_def demo_world_def initial_def)
  then show ?thesis
    by simp
qed

text \<open>
  C6, as the claim states it, fails: a line that matches \<open>port: <digits>\<close> is not
  always returned as an integer. \<open>int\<close> refuses a string of more digits than the
  interpreter's limit (4300 unless it was changed), so in a world whose simulation
  writes a port line of 4301 digits, port discovery finds the file at its first check,
  the line matches, and the exception is \<open>ValueError\<close>: no port is returned.
\<close>

theorem long_port_line_counterexample:
  "cfg_file long_port_world 0 = Some (lit ''port: '' @ replicate 4301 49 @ [NL]) \<and>
   int_max_str_digits long_port_world = 4300 \<and>
   spec_port_line (unicode_decimal long_port_world)
     (lit ''port: '' @ replicate 4301 49 @ [NL]) (replicate 4301 49) \<and>
   portDiscovery long_port_world (initial long_port_world) =
     Some (Inl ValueError, emit (OpenRead (lit ''cosim.cfg'')) (initial long_port_world))"
proof -
  have "portDiscovery long_port_world (initial long_port_world) =
      Some (Inl ValueError, advance (poll_sleeps 0 @ [OpenRead (lit ''cosim.cfg'')]) 0 (initial long_port_world))"
    by (rule portDiscovery_too_long [where content = "lit ''port: '' @ replicate 4301 49 @ [NL]"])
       (simp_all add: long_port_world_def demo_world_def initial_def long_cfg_runs within_limit_def)
  then have "portDiscovery long_port_world (initial long_port_world) =
      Some (Inl ValueError, emit (OpenRead (lit ''cosim.cfg'')) (initial long_port_world))"
    by (simp add: poll_sleeps_def advance_def emit_def)
  moreover have "spec_port_line (unicode_decimal long_port_world)
     (lit ''port: '' @ replicate 4301 49 @ [NL]) (replicate 4301 49)"
    unfolding match_port_spec [symmetric] by (simp add: ones_line)
  ultimately show ?thesis
    by (simp add: long_port_world_def demo_world_def)
qed

text \<open>
  C6, amended. Port discovery (lines 178 to 192), started at any state in which the
  simulation has not been seen to exit.

  The words of the claim are pinned first. A digit is an ASCII digit, with its value, or
  a code point beyond ASCII to which the Unicode database gives a decimal value. A line
  matches, with the digits \<open>ds\<close>, exactly when it is \<open>port: \<close>, then \<open>ds\<close>, not
  empty and all digits, then a rest that does not start with a digit. \<open>int\<close> gives
  the base-ten value of the digits when their number is within the interpreter's limit
  (or there is no limit), and raises \<open>ValueError\<close> otherwise.

  Then the loops. While the file is absent and the simulation alive, each round polls
  the process and sleeps 100 ms. The count may reach 200: when the file is still absent
  at the 201st check, the exception "Cosim never wrote cfg file" is raised after the
  201st sleep. A port is returned only if, at some time of the run, the file held a
  matching line, every matching line was within the limit, and the port is the number of
  the last matching line of the file as read then. When the file is there at check
  \<open>k\<close> with a matching line, discovery returns the number of the last matching
  line if every matching line is within the limit, and raises \<open>ValueError\<close>, leaving
  the file open, if one is not. The file \<open>garbage\nport: 4711\n\<close> gives 4711.
\<close>

theorem port_discovery_contract:
  "(decimal_value dv c = Some v) = ((48 \<le> c \<and> c \<le> 57 \<and> v = c - 48) \<or> (128 \<le> c \<and> dv c = Some v)) \<and>
   (match_port dv line = Some ds) = spec_port_line dv line ds \<and>
   within_limit lim ds = (lim = 0 \<or> length ds \<le> lim) \<and>
   py_int dv lim ds = (if lim = 0 \<or> length ds \<le> lim then Inr (spec_decimal dv ds) else Inl ValueError) \<and>
   (sim_returncode st = None \<and>
    (\<forall>j\<le>200. cfg_file w (now st + j) = None \<and> sim_poll w (now st + j) = None) \<longrightarrow>
      portDiscovery w st =
        Some (Inl (CfgNeverWritten (lit ''cosim.cfg'')), advance (poll_sleeps 201) 201 st)) \<and>
   (\<forall>port st'. portDiscovery w st = Some (Inr port, st') \<longrightarrow>
      (\<exists>t content. now st \<le> t \<and> t < now st' \<and> cfg_file w t = Some content \<and>
         digit_runs (unicode_decimal w) (readlines content) \<noteq> [] \<and>
         list_all (within_limit (int_max_str_digits w)) (digit_runs (unicode_decimal w) (readlines content)) \<and>
         port = last (port_lines (unicode_decimal w) (readlines content)))) \<and>
   (\<forall>k content. sim_returncode st = None \<and> k \<le> 200 \<and>
        (\<forall>j<k. cfg_file w (now st + j) = None \<and> sim_poll w (now st + j) = None) \<and>
        cfg_file w (now st + k) = Some content \<and>
        digit_runs (unicode_decimal w) (readlines content) \<noteq> [] \<longrightarrow>
      portDiscovery w st =
        (if list_all (within_limit (int_max_str_digits w)) (digit_runs (unicode_decimal w) (readlines content))
         then Some (Inr (last (port_lines (unicode_decimal w) (readlines content))),
                    advance (poll_sleeps k @ [OpenRead (lit ''cosim.cfg''), CloseFile (lit ''cosim.cfg'')]) (k + 1) st)
         else Some (Inl ValueError, advance (poll_sleeps k @ [OpenRead (lit ''cosim.cfg'')]) k st))) \<and>
   port_lines dv (readlines (lit ''garbage'' @ [NL] @ lit ''port: 4711'' @ [NL])) = [4711]"
proof (intro conjI impI allI)
  show "(decimal_value dv c = Some v) = ((48 \<le> c \<and> c \<le> 57 \<and> v = c - 48) \<or> (128 \<le> c \<and> dv c = Some v))"
    by (auto simp: decimal_value_def)
  show "(match_port dv line = Some ds) = spec_port_line dv line ds"
    by (rule match_port_spec)
  show "within_limit lim ds = (lim = 0 \<or> length ds \<le> lim)"
    by (rule within_limit_def)
  show "py_int dv lim ds = (if lim = 0 \<or> length ds \<le> lim then Inr (spec_decimal dv ds) else Inl ValueError)"
    by (simp add: py_int_spec within_limit_def)
  show "port_lines dv (readlines (lit ''garbage'' @ [NL] @ lit ''port: 4711'' @ [NL])) = [4711]"
    by (rule demo_cfg_ports)
next
  assume "sim_returncode st = None \<and>
    (\<forall>j\<le>200. cfg_file w (now st + j) = None \<and> sim_poll w (now st + j) = None)"
  then show "portDiscovery w st =
      Some (Inl (CfgNeverWritten (lit ''cosim.cfg'')), advance (poll_sleeps 201) 201 st)"
    by (intro portDiscovery_timeout) simp_all
next
  fix port st'
  assume "portDiscovery w st = Some (Inr port, st')"
  then show "\<exists>t content. now st \<le> t \<and> t < now st' \<and> cfg_file w t = Some content \<and>
         digit_runs (unicode_decimal w) (readlines content) \<noteq> [] \<and>
         list_all (within_limit (int_max_str_digits w)) (digit_runs (unicode_decimal w) (readlines content)) \<and>
         port = last (port_lines (unicode_decimal w) (readlines content))"
    by (rule portDiscovery_sound)
next
  fix k content
  assume h: "sim_returncode st = None \<and> k \<le> 200 \<and>
        (\<forall>j<k. cfg_file w (now st + j) = None \<and> sim_poll w (now st + j) = None) \<and>
        cfg_file w (now st + k) = Some content \<and>
        digit_runs (unicode_decimal w) (readlines content) \<noteq> []"
  show "portDiscovery w st =
        (if list_all (within_limit (int_max_str_digits w)) (digit_runs (unicode_decimal w) (readlines content))
         then Some (Inr (last (port_lines (unicode_decimal w) (readlines content))),
                    advance (poll_sleeps k @ [OpenRead (lit ''cosim.cfg''), CloseFile (lit ''cosim.cfg'')]) (k + 1) st)
         else Some (Inl ValueError, advance (poll_sleeps k @ [OpenRead (lit ''cosim.cfg'')]) k st))"
  proof (cases "list_all (within_limit (int_max_str_digits w)) (digit_runs (unicode_decimal w) (readlines content))")
    case True
    with h have "portDiscovery w st =
        Some (Inr (last (port_lines (unicode_decimal w) (readlines content))),
              advance (poll_sleeps k @ [OpenRead (lit ''cosim.cfg''), CloseFile (lit ''cosim.cfg'')]) (k + 1) st)"
      by (intro portDiscovery_found) simp_all
    with True show ?thesis by simp
  next
    case False
    with h have "portDiscovery w st =
        Some (Inl ValueError, advance (poll_sleeps k @ [OpenRead (lit ''cosim.cfg'')]) k st)"
      by (intro portDiscovery_too_long [where content = content]) simp_all
    with False show ?thesis by simp
  qed
qed
theorem port_discovery_contract_witness:
  "match_port (unicode_decimal demo_world) (lit ''port: 8080'' @ [NL]) = Some (lit ''8080'') \<and>
   match_port (unicode_decimal demo_world) (lit ''abcdef4711'') \<noteq> Some (lit ''4711'') \<and>
   match_port (unicode_decimal demo_world) (lit ''port: '' @ [0x664, 0x667, 0x661, 0x661])
     = Some [0x664, 0x667, 0x661, 0x661] \<and>
   py_int (unicode_decimal demo_world) 4300 [0x664, 0x667, 0x661, 0x661] = Inr 4711 \<and>
   py_int (unicode_decimal demo_world) 4300 (replicate 4301 49) = Inl ValueError \<and>
   portDiscovery silent_world (initial silent_world) =
     Some (Inl (CfgNeverWritten (lit ''cosim.cfg'')), advance (poll_sleeps 201) 201 (initial silent_world)) \<and>
   portDiscovery demo_world (initial demo_world) =
     Some (Inr 4711,
           advance (poll_sleeps 2 @ [OpenRead (lit ''cosim.cfg''), CloseFile (lit ''cosim.cfg'')]) 3
             (initial demo_world)) \<and>
   portDiscovery long_port_world (initial long_port_world) =
     Some (Inl ValueError, advance (poll_sleeps 0 @ [OpenRead (lit ''cosim.cfg'')]) 0 (initial long_port_world)) \<and>
   (\<exists>t content. t < 3 \<and> cfg_file demo_world t = Some content \<and>
      last (port_lines (unicode_decimal demo_world) (readlines content)) = 4711)"
proof -
  let ?D = "unicode_decimal demo_world"
  let ?cfg = "lit ''garbage'' @ [NL] @ lit ''port: 4711'' @ [NL]"
  let ?long = "lit ''port: '' @ replicate 4301 49 @ [NL]"
  note matching = port_discovery_contract [THEN conjunct2, THEN conjunct1]
  note int = port_discovery_contract [THEN conjunct2, THEN conjunct2, THEN conjunct2, THEN conjunct1]
  note timeout = port_discovery_contract [THEN conjunct2, THEN conjunct2, THEN conjunct2, THEN conjunct2,
      THEN conjunct1, rule_format]
  note sound = port_discovery_contract [THEN conjunct2, THEN conjunct2, THEN conjunct2, THEN conjunct2,
      THEN conjunct2, THEN conjunct1, rule_format]
  note found = port_discovery_contract [THEN conjunct2, THEN conjunct2, THEN conjunct2, THEN conjunct2,
      THEN conjunct2, THEN conjunct2, THEN conjunct1, rule_format]
  note example = port_discovery_contract [THEN conjunct2, THEN conjunct2, THEN conjunct2, THEN conjunct2,
      THEN conjunct2, THEN conjunct2, THEN conjunct2]
  have "spec_port_line ?D (lit ''port: 8080'' @ [NL]) (lit ''8080'')"
    by (simp add: spec_port_line_def decimal_value_def lit_def NL_def)
  then have a: "match_port ?D (lit ''port: 8080'' @ [NL]) = Some (lit ''8080'')"
    by (simp add: matching)
  have "\<not> spec_port_line ?D (lit ''abcdef4711'') (lit ''4711'')"
    by (simp add: spec_port_line_def lit_def)
  then have b: "match_port ?D (lit ''abcdef4711'') \<noteq> Some (lit ''4711'')"
    by (simp add: matching)
  have "spec_port_line ?D (lit ''port: '' @ [0x664, 0x667, 0x661, 0x661]) [0x664, 0x667, 0x661, 0x661]"
    by (simp add: spec_port_line_def decimal_value_def demo_world_def)
  then have c: "match_port ?D (lit ''port: '' @ [0x664, 0x667, 0x661, 0x661]) = Some [0x664, 0x667, 0x661, 0x661]"
    by (simp add: matching)
  have "spec_decimal ?D [0x664, 0x667, 0x661, 0x661] = 4711"
    by (simp add: int_of_digits_spec [symmetric] int_of_digits_def decimal_value_def demo_world_def)
  then have d: "py_int ?D 4300 [0x664, 0x667, 0x661, 0x661] = Inr 4711"
    by (simp add: int)
  have e: "py_int ?D 4300 (replicate 4301 49) = Inl ValueError"
    by (simp add: int)
  have f: "portDiscovery silent_world (initial silent_world) =
     Some (Inl (CfgNeverWritten (lit ''cosim.cfg'')), advance (poll_sleeps 201) 201 (initial silent_world))"
    by (rule timeout) (simp add: silent_world_def demo_world_def initial_def)
  have ports: "port_lines ?D (readlines ?cfg) = [4711]"
    by (rule example)
  then have runs: "digit_runs ?D (readlines ?cfg) \<noteq> []"
    by (auto simp: port_lines_def)
  have lim: "list_all (within_limit (int_max_str_digits demo_world)) (digit_runs ?D (readlines ?cfg))"
    unfolding demo_cfg_runs by (simp add: within_limit_def demo_world_def)
  have "sim_returncode (initial demo_world) = None \<and> 2 \<le> (200::nat) \<and>
        (\<forall>j<2. cfg_file demo_world (now (initial demo_world) + j) = None \<and>
                sim_poll demo_world (now (initial demo_world) + j) = None) \<and>
        cfg_file demo_world (now (initial demo_world) + 2) = Some ?cfg \<and>
        digit_runs ?D (readlines ?cfg) \<noteq> []"
    using runs by (simp add: demo_world_def initial_def)
  from found [OF this] lim ports have g: "portDiscovery demo_world (initial demo_world) =
     Some (Inr 4711,
           advance (poll_sleeps 2 @ [OpenRead (lit ''cosim.cfg''), CloseFile (lit ''cosim.cfg'')]) 3
             (initial demo_world))"
    by simp
  have D': "unicode_decimal long_port_world = ?D" "int_max_str_digits long_port_world = 4300"
    by (simp_all add: long_port_world_def demo_world_def)
  have "sim_returncode (initial long_port_world) = None \<and> 0 \<le> (200::nat) \<and>
        (\<forall>j<0. cfg_file long_port_world (now (initial long_port_world) + j) = None \<and>
                sim_poll long_port_world (now (initial long_port_world) + j) = None) \<and>
        cfg_file long_port_world (now (initial long_port_world) + 0) = Some ?long \<and>
        digit_runs (unicode_decimal long_port_world) (readlines ?long) \<noteq> []"
    by (simp add: long_port_world_def initial_def long_cfg_runs)
  from found [OF this] have h: "portDiscovery long_port_world (initial long_port_world) =
     Some (Inl ValueError, advance (poll_sleeps 0 @ [OpenRead (lit ''cosim.cfg'')]) 0 (initial long_port_world))"
    by (simp add: D' long_cfg_runs within_limit_def)
  from sound [OF g] obtain t content where
    "t < now (advance (poll_sleeps 2 @ [OpenRead (lit ''cosim.cfg''), CloseFile (lit ''cosim.cfg'')]) 3
             (initial demo_world))"
    "cfg_file demo_world t = Some content" "4711 = last (port_lines ?D (readlines content))"
    by blast
  then have i: "\<exists>t content. t < 3 \<and> cfg_file demo_world t = Some content \<and>
      last (port_lines ?D (readlines content)) = 4711"
    by (auto simp: initial_def)
  from a b c d e f g h i show ?thesis
    by blast
qed

text \<open>
  C1. The finally block of \<open>run\<close> says "Make sure to stop the simulation no matter
  what", and the claim says that it does. But the teardown starts with
  \<open>os.getpgid(simProc.pid)\<close>, which raises \<open>ProcessLookupError\<close> once the process has
  been reaped, and a \<open>poll\<close> that sees the simulation exited reaps it. Here is \<open>run\<close>
  in a world whose simulation writes its file, never opens its port and exits with code
  1 during the third round of the readiness probe. The simulation is launched; the probe
  raises "Simulation exited early"; in the finally block \<open>getpgid\<close> raises, so no signal
  goes to the process group of the simulation, nothing is waited for and nothing is
  killed. The exception of the run is \<open>ProcessLookupError\<close>, in place of that of the
  probe, and neither the run time nor the logs are printed.
\<close>

theorem teardown_skipped_after_exit:
  "\<exists>st'. run dying_world demo_runner (initial dying_world) = Some (Inl ProcessLookupError, st') \<and>
     trace st' =
       [OpenWrite (lit ''sim_stdout.log''), OpenWrite (lit ''sim_stderr.log''),
        OpenWrite (lit ''test_stdout.log''), OpenWrite (lit ''test_stderr.log''),
        Print (lit ''[INFO] Sim run command: '' @ join [SPACE] (sim_cmd demo_runner)),
        Popen (sim_cmd demo_runner),
        CloseFile (lit ''sim_stderr.log''), CloseFile (lit ''sim_stdout.log'')]
       @ poll_sleeps 2 @ [OpenRead (lit ''cosim.cfg''), CloseFile (lit ''cosim.cfg'')]
       @ probe_rounds 4711 2 @ attempt 4711 @ [Poll, Getpgid] \<and>
     list_ex is_launch (trace st') \<and>
     Killpg_SIGINT \<notin> set (trace st') \<and> Wait_1s \<notin> set (trace st') \<and> Kill \<notin> set (trace st')"
proof -
  let ?w = dying_world and ?r = demo_runner
  let ?cfg = "lit ''garbage'' @ [NL] @ lit ''port: 4711'' @ [NL]"
  let ?L = "launched ?w ?r (pre_launch ?r (initial ?w))"
  let ?st1 = "advance (poll_sleeps 2 @ [OpenRead (lit ''cosim.cfg''), CloseFile (lit ''cosim.cfg'')]) (2 + 1) ?L"
  let ?st2 = "reaped 1 (advance (probe_rounds 4711 2 @ attempt 4711) 2 ?st1)"
  have w: "unicode_decimal ?w = unicode_decimal demo_world" "int_max_str_digits ?w = 4300"
    "popen_error ?w = None"
    by (simp_all add: dying_world_def demo_world_def)
  have lim: "list_all (within_limit (int_max_str_digits ?w)) (digit_runs (unicode_decimal ?w) (readlines ?cfg))"
    unfolding demo_cfg_runs by (simp add: within_limit_def w)
  have runs: "digit_runs (unicode_decimal ?w) (readlines ?cfg) \<noteq> []"
    unfolding demo_cfg_runs by simp
  have "portDiscovery ?w ?L = Some (Inr (last (port_lines (unicode_decimal ?w) (readlines ?cfg))), ?st1)"
    using runs lim
    by (intro portDiscovery_found) (simp_all add: dying_world_def demo_world_def initial_def)
  then have pd: "portDiscovery ?w ?L = Some (Inr 4711, ?st1)"
    unfolding demo_cfg_ports by simp
  have "waitRpc ?w 4711 0 ?st1 = (Inl SimulationExitedEarly, ?st2)"
    by (rule waitRpc_exited) (simp_all add: dying_world_def demo_world_def initial_def)
  then have rp: "readinessProbe ?w 4711 ?st1 = (Inl SimulationExitedEarly, ?st2)"
    by (simp add: readinessProbe_def)
  from pd rp have "run_after_launch ?w ?r ?L = Some (Inl SimulationExitedEarly, ?st2)"
    by (simp add: run_after_launch_def)
  then have run: "run ?w ?r (initial ?w) = Some (Inl ProcessLookupError, emit Getpgid ?st2)"
    by (simp add: run_def w pre_launch_def Let_def run_finally_def teardown_def)
  have tr: "trace (emit Getpgid ?st2) =
       [OpenWrite (lit ''sim_stdout.log''), OpenWrite (lit ''sim_stderr.log''),
        OpenWrite (lit ''test_stdout.log''), OpenWrite (lit ''test_stderr.log''),
        Print (lit ''[INFO] Sim run command: '' @ join [SPACE] (sim_cmd demo_runner)),
        Popen (sim_cmd demo_runner),
        CloseFile (lit ''sim_stderr.log''), CloseFile (lit ''sim_stdout.log'')]
       @ poll_sleeps 2 @ [OpenRead (lit ''cosim.cfg''), CloseFile (lit ''cosim.cfg'')]
       @ probe_rounds 4711 2 @ attempt 4711 @ [Poll, Getpgid]"
    by (simp add: pre_launch_def run_setup_def open_w_def Let_def initial_def portFileName_def
        demo_runner_def dying_world_def demo_world_def)
  have "list_ex is_launch (trace (emit Getpgid ?st2))"
    unfolding tr by simp
  moreover have "Killpg_SIGINT \<notin> set (trace (emit Getpgid ?st2))"
    "Wait_1s \<notin> set (trace (emit Getpgid ?st2))" "Kill \<notin> set (trace (emit Getpgid ?st2))"
    unfolding tr by (auto simp: poll_sleeps_def probe_rounds_def attempt_def)
  ultimately show ?thesis
    using run tr by blast
qed

text \<open>
  C8. \<open>isPortOpen\<close> closes its socket in the statement after \<open>connect_ex\<close>, and the
  claim says that the socket is closed after every attempt. But \<open>connect_ex\<close> raises
  \<open>OverflowError\<close> for a port above 65535, and then the statement that closes the
  socket is not reached. Here is a world whose simulation writes \<open>port: 70000\<close>: port
  discovery returns 70000; the first attempt of the probe creates a socket and raises;
  the probe ends with that exception, which is none of ready, "never opened" and
  "exited early", and the socket has not been closed.
\<close>

theorem probe_socket_left_open:
  "portDiscovery big_port_world (initial big_port_world) =
     Some (Inr 70000,
           advance [OpenRead (lit ''cosim.cfg''), CloseFile (lit ''cosim.cfg'')] 1 (initial big_port_world)) \<and>
   isPortOpen big_port_world 70000
       (advance [OpenRead (lit ''cosim.cfg''), CloseFile (lit ''cosim.cfg'')] 1 (initial big_port_world)) =
     (Inl OverflowError,
      advance [OpenRead (lit ''cosim.cfg''), CloseFile (lit ''cosim.cfg''), SockCreate] 1 (initial big_port_world)) \<and>
   readinessProbe big_port_world 70000
       (advance [OpenRead (lit ''cosim.cfg''), CloseFile (lit ''cosim.cfg'')] 1 (initial big_port_world)) =
     (Inl OverflowError,
      advance [OpenRead (lit ''cosim.cfg''), CloseFile (lit ''cosim.cfg''), SockCreate] 1 (initial big_port_world)) \<and>
   trace (advance [OpenRead (lit ''cosim.cfg''), CloseFile (lit ''cosim.cfg''), SockCreate] 1 (initial big_port_world))
     = [OpenRead (lit ''cosim.cfg''), CloseFile (lit ''cosim.cfg''), SockCreate]"
proof -
  let ?w = big_port_world
  let ?cfg = "lit ''port: 70000'' @ [NL]"
  let ?st1 = "advance [OpenRead (lit ''cosim.cfg''), CloseFile (lit ''cosim.cfg'')] 1 (initial ?w)"
  have lines: "readlines ?cfg = [?cfg]"
    by (simp add: readlines_def lit_def NL_def CR_def)
  have runs: "digit_runs (unicode_decimal ?w) (readlines ?cfg) = [lit ''70000'']"
    unfolding lines
    by (simp add: digit_runs_def map_filter_simps match_port_def startswith_def
        is_digit_def decimal_value_def lit_def NL_def Let_def)
  have ports: "port_lines (unicode_decimal ?w) (readlines ?cfg) = [70000]"
    unfolding port_lines_def runs
    by (simp add: int_of_digits_spec [symmetric] int_of_digits_def decimal_value_def lit_def)
  have ne: "digit_runs (unicode_decimal ?w) (readlines ?cfg) \<noteq> []"
    unfolding runs by simp
  have lim: "list_all (within_limit (int_max_str_digits ?w)) (digit_runs (unicode_decimal ?w) (readlines ?cfg))"
    unfolding runs by (simp add: within_limit_def big_port_world_def demo_world_def)
  have "portDiscovery ?w (initial ?w) =
      Some (Inr (last (port_lines (unicode_decimal ?w) (readlines ?cfg))),
            advance (poll_sleeps 0 @ [OpenRead (lit ''cosim.cfg''), CloseFile (lit ''cosim.cfg'')]) (0 + 1) (initial ?w))"
    using ne lim
    by (intro portDiscovery_found) (simp_all add: big_port_world_def demo_world_def initial_def)
  then have a: "portDiscovery ?w (initial ?w) = Some (Inr 70000, ?st1)"
    unfolding ports by (simp add: poll_sleeps_def)
  have b: "isPortOpen ?w 70000 ?st1 =
      (Inl OverflowError,
       advance [OpenRead (lit ''cosim.cfg''), CloseFile (lit ''cosim.cfg''), SockCreate] 1 (initial ?w))"
    by (simp add: isPortOpen_out_of_range emit_advance)
  have c: "readinessProbe ?w 70000 ?st1 =
      (Inl OverflowError,
       advance [OpenRead (lit ''cosim.cfg''), CloseFile (lit ''cosim.cfg''), SockCreate] 1 (initial ?w))"
    by (simp add: readinessProbe_def waitRpc_overflow emit_advance)
  have d: "trace (advance [OpenRead (lit ''cosim.cfg''), CloseFile (lit ''cosim.cfg''), SockCreate] 1 (initial ?w))
     = [OpenRead (lit ''cosim.cfg''), CloseFile (lit ''cosim.cfg''), SockCreate]"
    by (simp add: initial_def)
  from a b c d show ?thesis
    by blast
qed

text \<open>
  C3. Lines 361 to 364 with \<open>compile\<close>, started at any state: when the compiler has
  run and exited with a code that is not zero, the entry point prints the command, runs
  the compiler, prints "====== Compilation failure:" and the captured output (stdout,
  a separator, stderr), prints the compile time, and returns the code of the compiler
  at once. \<open>run\<close> is not called: these five events are all that happens, and none of
  them starts the simulation. The value returned is that code, so the exit status of the
  process is the code modulo 256, which is not zero for a code between -255 and 255.
\<close>

theorem compile_failure_short_circuits:
  "compile_error w = None \<and> compile_returncode w \<noteq> 0 \<longrightarrow>
     main_tail w r st =
       Some (Inr (Some (compile_returncode w)),
             emits [Print (lit ''[INFO] Compile command: '' @ join [SPACE] (compile_cmd r)),
                    RunCompile (compile_cmd r),
                    Print (lit ''====== Compilation failure:''),
                    Print (compile_stdout w @ [NL] @ lit ''----- STDERR ------'' @ [NL] @ compile_stderr w),
                    PrintElapsed (lit ''[INFO] Compile time: '')] st) \<and>
     list_ex is_launch
       (trace (emits [Print (lit ''[INFO] Compile command: '' @ join [SPACE] (compile_cmd r)),
                    RunCompile (compile_cmd r),
                    Print (lit ''====== Compilation failure:''),
                    Print (compile_stdout w @ [NL] @ lit ''----- STDERR ------'' @ [NL] @ compile_stderr w),
                    PrintElapsed (lit ''[INFO] Compile time: '')] st))
       = list_ex is_launch (trace st) \<and>
     exit_status (Inr (Some (compile_returncode w))) = compile_returncode w mod 256 \<and>
     (- 256 < compile_returncode w \<and> compile_returncode w < 256 \<longrightarrow>
        exit_status (Inr (Some (compile_returncode w))) \<noteq> 0)"
proof (intro impI conjI)
  assume h: "compile_error w = None \<and> compile_returncode w \<noteq> 0"
  then show "main_tail w r st =
       Some (Inr (Some (compile_returncode w)),
             emits [Print (lit ''[INFO] Compile command: '' @ join [SPACE] (compile_cmd r)),
                    RunCompile (compile_cmd r),
                    Print (lit ''====== Compilation failure:''),
                    Print (compile_stdout w @ [NL] @ lit ''----- STDERR ------'' @ [NL] @ compile_stderr w),
                    PrintElapsed (lit ''[INFO] Compile time: '')] st)"
    by (simp add: main_tail_def compile_def Let_def emits_def emit_def)
  show "list_ex is_launch
       (trace (emits [Print (lit ''[INFO] Compile command: '' @ join [SPACE] (compile_cmd r)),
                    RunCompile (compile_cmd r),
                    Print (lit ''====== Compilation failure:''),
                    Print (compile_stdout w @ [NL] @ lit ''----- STDERR ------'' @ [NL] @ compile_stderr w),
                    PrintElapsed (lit ''[INFO] Compile time: '')] st))
       = list_ex is_launch (trace st)"
    by simp
  show "exit_status (Inr (Some (compile_returncode w))) = compile_returncode w mod 256"
    by simp
  assume "- 256 < compile_returncode w \<and> compile_returncode w < 256"
  with h show "exit_status (Inr (Some (compile_returncode w))) \<noteq> 0"
    by (auto simp: zmod_eq_0_iff)
qed

theorem compile_failure_short_circuits_witness:
  "compile_error failing_compile_world = None \<and> compile_returncode failing_compile_world = 2 \<and>
   main_tail failing_compile_world demo_runner (initial failing_compile_world) =
     Some (Inr (Some 2),
           emits [Print (lit ''[INFO] Compile command: '' @ join [SPACE] (compile_cmd demo_runner)),
                  RunCompile (compile_cmd demo_runner),
                  Print (lit ''====== Compilation failure:''),
                  Print (lit ''ok'' @ [NL] @ lit ''----- STDERR ------'' @ [NL] @ lit ''syntax error''),
                  PrintElapsed (lit ''[INFO] Compile time: '')] (initial failing_compile_world)) \<and>
   exit_status (Inr (Some 2)) = 2"
  using compile_failure_short_circuits [of failing_compile_world demo_runner "initial failing_compile_world"]
  by (simp add: failing_compile_world_def demo_world_def)

text \<open>
  C4, as the claim states it, fails: exit codes other than 0 and 1 are produced. A
  command line that \<open>argparse\<close> rejects (here \<open>--sim\<close> without its value) ends the
  process with status 2; and lines 361 to 363 return the code of the compiler when it is
  not zero, so a compiler that exits with code 2 makes 2 the value given to \<open>sys.exit\<close>.
\<close>

theorem exit_code_counterexample:
  "map_option (exit_status \<circ> fst)
      (main rejecting_parser demo_world [lit ''esi-cosim-runner.py'', lit ''--sim'']) = Some 2 \<and>
   map_option (exit_status \<circ> fst)
      (main_tail failing_compile_world demo_runner (initial failing_compile_world)) = Some 2"
  by (simp add: main_def rejecting_parser_def Let_def main_tail_def compile_def
      failing_compile_world_def demo_world_def)

text \<open>
  C4, amended. What \<open>__main__\<close> returns or raises is: \<open>None\<close> for an empty command
  line, after the usage text; otherwise an exception, that of the parser or that of the
  constructor. What lines 361 to 364 return or raise, for a runner, is: an exception; or
  the code of the compiler, when it is not zero; or the value of \<open>run\<close>, which is 0 or
  1. The exit status of the process is 0 for \<open>None\<close>, the value modulo 256 for an
  integer and for a \<open>SystemExit\<close>, and 1 for any other exception.
\<close>

theorem exit_code_cases:
  "(main parse_args w argv = Some (res, st') \<longrightarrow>
      (length argv \<le> 1 \<and> res = Inr None) \<or> (1 < length argv \<and> (\<exists>e. res = Inl e))) \<and>
   (main_tail w r st = Some (res, st') \<longrightarrow>
      (\<exists>e. res = Inl e) \<or>
      (compile_error w = None \<and> compile_returncode w \<noteq> 0 \<and> res = Inr (Some (compile_returncode w))) \<or>
      (compile_error w = None \<and> compile_returncode w = 0 \<and>
         (\<exists>st1 v. run w r st1 = Some (Inr v, st') \<and> res = Inr (Some v) \<and> (v = 0 \<or> v = 1)))) \<and>
   (run w r st = Some (Inr v, st') \<longrightarrow> v = 0 \<or> v = 1) \<and>
   exit_status (Inr None) = 0 \<and>
   exit_status (Inr (Some n)) = n mod 256 \<and>
   exit_status (Inl (SystemExit n)) = n mod 256 \<and>
   ((\<forall>k. e \<noteq> SystemExit k) \<longrightarrow> exit_status (Inl e) = 1)"
proof (intro conjI impI)
  assume "main parse_args w argv = Some (res, st')"
  then show "(length argv \<le> 1 \<and> res = Inr None) \<or> (1 < length argv \<and> (\<exists>e. res = Inl e))"
    by (auto simp: main_def init_def Let_def split: if_splits sum.splits)
next
  assume "main_tail w r st = Some (res, st')"
  then show "(\<exists>e. res = Inl e) \<or>
      (compile_error w = None \<and> compile_returncode w \<noteq> 0 \<and> res = Inr (Some (compile_returncode w))) \<or>
      (compile_error w = None \<and> compile_returncode w = 0 \<and>
         (\<exists>st1 v. run w r st1 = Some (Inr v, st') \<and> res = Inr (Some v) \<and> (v = 0 \<or> v = 1)))"
    by (rule main_tail_cases)
next
  assume "run w r st = Some (Inr v, st')"
  then show "v = 0 \<or> v = 1"
    by (rule run_value)
next
  assume "\<forall>k. e \<noteq> SystemExit k"
  then show "exit_status (Inl e) = 1"
    by (cases e) simp_all
qed simp_all

theorem exit_code_cases_witness:
  "main rejecting_parser demo_world [lit ''esi-cosim-runner.py'', lit ''--sim'']
     = Some (Inl (SystemExit 2), initial demo_world) \<and>
   1 < length [lit ''esi-cosim-runner.py'', lit ''--sim''] \<and>
   exit_status (Inl (SystemExit 2)) = 2 \<and>
   exit_status (Inl DpiLibraryDisabled) = 1 \<and>
   (\<exists>st'. main_tail failing_compile_world demo_runner (initial failing_compile_world)
             = Some (Inr (Some 2), st')) \<and>
   compile_returncode failing_compile_world \<noteq> 0 \<and>
   exit_status (Inr (Some 2)) = 2 \<and>
   (\<exists>v st'. run demo_world demo_runner (initial demo_world) = Some (Inr v, st') \<and> (v = 0 \<or> v = 1))"
proof -
  let ?argv = "[lit ''esi-cosim-runner.py'', lit ''--sim'']"
  let ?fw = failing_compile_world
  have a: "main rejecting_parser demo_world ?argv = Some (Inl (SystemExit 2), initial demo_world)"
    by (simp add: main_def rejecting_parser_def Let_def)
  from exit_code_cases [of rejecting_parser demo_world ?argv "Inl (SystemExit 2)" "initial demo_world"] a
  have b: "1 < length ?argv"
    by simp
  have c: "exit_status (Inl (SystemExit 2)) = 2" "exit_status (Inr (Some 2)) = 2"
    using exit_code_cases [where n = 2] by simp_all
  have d: "exit_status (Inl DpiLibraryDisabled) = 1"
    using exit_code_cases [where e = DpiLibraryDisabled] by simp
  obtain st' where e: "main_tail ?fw demo_runner (initial ?fw) = Some (Inr (Some 2), st')"
    by (simp add: main_tail_def compile_def Let_def failing_compile_world_def demo_world_def)
  from exit_code_cases [of _ ?fw _ "Inr (Some 2)" st' demo_runner "initial ?fw"] e
  have f: "compile_returncode ?fw \<noteq> 0"
    by auto
  from run_test_mode [OF demo_worlds_reach(1), of demo_runner "lit ''/opt/lib''" 0]
  obtain v st'' where g: "run demo_world demo_runner (initial demo_world) = Some (Inr v, st'')"
    by (auto simp: demo_runner_def demo_world_def)
  with exit_code_cases [of _ demo_world _ _ st'' demo_runner "initial demo_world" v]
  have h: "v = 0 \<or> v = 1"
    by simp
  from a b c d e f g h show ?thesis
    by blast
qed

text \<open>
  C5. The verdict of \<open>run\<close> (lines 256 to 266) and \<open>readLogs\<close>. The flag that
  \<open>readLogs\<close> returns says that the log of the simulation's stderr or the log of the
  test's stderr is not empty. When the try block has ended without an exception and the
  logs can be read, the value returned is 0 exactly when a test process ran, its exit
  code is zero and both stderr logs are empty, and 1 otherwise; so stderr content makes
  it 1 even when the exit code of the test is zero. Every value that \<open>run\<close> returns is
  such a verdict, on the exit code of the test when there is a test. And for a run in
  inline-script mode that reaches the test phase, the value returned is 0 exactly when
  the test exits with code zero and the simulation and the test have written nothing to
  stderr, and 1 otherwise.
\<close>

theorem stderr_fails_run:
  "(readLogs st = Inr (err, logs) \<longrightarrow>
      (\<exists>se te. fs st (lit ''sim_stderr.log'') = Some se \<and> fs st (lit ''test_stderr.log'') = Some te \<and>
         err = (se \<noteq> [] \<or> te \<noteq> []))) \<and>
   (report (Inr t) st = (Inr v, st') \<longrightarrow>
      (\<exists>se te. fs st (lit ''sim_stderr.log'') = Some se \<and> fs st (lit ''test_stderr.log'') = Some te \<and>
         v = (if t = Some 0 \<and> se = [] \<and> te = [] then 0 else 1))) \<and>
   (run w r st0 = Some (Inr v, st'') \<longrightarrow>
      (\<exists>t st1. report (Inr t) st1 = (Inr v, st'') \<and>
         (if server_only r then t = None else (\<exists>rc. t = Some rc \<and> test_result w = Inr rc)))) \<and>
   (reaches_test w st0 k1 k2 port \<and> \<not> server_only r \<and> \<not> exec r \<and> \<not> interactive r \<and>
    environ w (lit ''PYTHONPATH'') = Some pp \<and> test_result w = Inr rc \<longrightarrow>
      (\<exists>st'. run w r st0 =
         Some (Inr (if rc = 0 \<and> sim_stderr w = [] \<and> test_stderr w = [] then 0 else 1), st')))"
proof (intro conjI impI)
  assume "readLogs st = Inr (err, logs)"
  then show "\<exists>se te. fs st (lit ''sim_stderr.log'') = Some se \<and> fs st (lit ''test_stderr.log'') = Some te \<and>
         err = (se \<noteq> [] \<or> te \<noteq> [])"
    by (rule readLogs_err)
next
  assume "report (Inr t) st = (Inr v, st')"
  from report_verdict [OF this]
  show "\<exists>se te. fs st (lit ''sim_stderr.log'') = Some se \<and> fs st (lit ''test_stderr.log'') = Some te \<and>
         v = (if t = Some 0 \<and> se = [] \<and> te = [] then 0 else 1)"
    by auto
next
  assume "run w r st0 = Some (Inr v, st'')"
  from run_returns_report [OF this] obtain t st1 st2 where
    "run_after_launch w r (launched w r (pre_launch r st0)) = Some (Inr t, st1)"
    "report (Inr t) st2 = (Inr v, st'')"
    by blast
  with run_after_launch_result [of w r _ t st1]
  show "\<exists>t st1. report (Inr t) st1 = (Inr v, st'') \<and>
         (if server_only r then t = None else (\<exists>rc. t = Some rc \<and> test_result w = Inr rc))"
    by blast
next
  assume "reaches_test w st0 k1 k2 port \<and> \<not> server_only r \<and> \<not> exec r \<and> \<not> interactive r \<and>
    environ w (lit ''PYTHONPATH'') = Some pp \<and> test_result w = Inr rc"
  then show "\<exists>st'. run w r st0 =
         Some (Inr (if rc = 0 \<and> sim_stderr w = [] \<and> test_stderr w = [] then 0 else 1), st')"
    using run_test_mode [of w st0 k1 k2 port r pp rc] by blast
qed

theorem stderr_fails_run_witness:
  "test_result stderr_world = Inr 0 \<and> sim_stderr stderr_world = lit ''warning'' @ [NL] \<and>
   (\<exists>st'. run stderr_world demo_runner (initial stderr_world) = Some (Inr 1, st') \<and>
      (\<exists>t st1. report (Inr t) st1 = (Inr 1, st') \<and> t = Some 0)) \<and>
   test_result demo_world = Inr 0 \<and> sim_stderr demo_world = [] \<and> test_stderr demo_world = [] \<and>
   (\<exists>st'. run demo_world demo_runner (initial demo_world) = Some (Inr 0, st')) \<and>
   test_result failing_test_world = Inr 3 \<and>
   (\<exists>st'. run failing_test_world demo_runner (initial failing_test_world) = Some (Inr 1, st'))"
proof -
  have r: "\<not> server_only demo_runner" "\<not> exec demo_runner" "\<not> interactive demo_runner"
    by (simp_all add: demo_runner_def)
  have s: "test_result stderr_world = Inr 0" "sim_stderr stderr_world = lit ''warning'' @ [NL]"
    "environ stderr_world (lit ''PYTHONPATH'') = Some (lit ''/opt/lib'')"
    by (simp_all add: stderr_world_def demo_world_def)
  have d: "test_result demo_world = Inr 0" "sim_stderr demo_world = []" "test_stderr demo_world = []"
    "environ demo_world (lit ''PYTHONPATH'') = Some (lit ''/opt/lib'')"
    by (simp_all add: demo_world_def)
  have f: "test_result failing_test_world = Inr 3"
    "environ failing_test_world (lit ''PYTHONPATH'') = Some (lit ''/opt/lib'')"
    by (simp_all add: failing_test_world_def demo_world_def)
  note run = stderr_fails_run [THEN conjunct2, THEN conjunct2, THEN conjunct2, rule_format]
  note verdict = stderr_fails_run [THEN conjunct2, THEN conjunct2, THEN conjunct1, rule_format]
  from run [of stderr_world "initial stderr_world" 2 1 4711 demo_runner "lit ''/opt/lib''" 0]
    demo_worlds_reach(2) r s
  obtain st1 where a: "run stderr_world demo_runner (initial stderr_world) = Some (Inr 1, st1)"
    by auto
  from verdict [OF a] r s have a': "\<exists>t st2. report (Inr t) st2 = (Inr 1, st1) \<and> t = Some 0"
    by auto
  from run [of demo_world "initial demo_world" 2 1 4711 demo_runner "lit ''/opt/lib''" 0]
    demo_worlds_reach(1) r d
  have b: "\<exists>st'. run demo_world demo_runner (initial demo_world) = Some (Inr 0, st')"
    by auto
  from run [of failing_test_world "initial failing_test_world" 2 1 4711 demo_runner "lit ''/opt/lib''" 3]
    demo_worlds_reach(3) r f
  have c: "\<exists>st'. run failing_test_world demo_runner (initial failing_test_world) = Some (Inr 1, st')"
    by auto
  from a a' b c s d f show ?thesis
    by blast
qed

end
